theory Spec2Isabelle
  imports Complex_Main "HOL-Library.AList" "HOL-Library.Char_ord" "HOL-Library.List_Lexorder"
    "HOL-Library.Multiset"
begin

section \<open>The order manager of the management API (package manager, src/unnamed/part\_004)\<close>

text \<open>
  The development embeds \<^verbatim>\<open>OrderManager\<close> and its helpers. Conventions:
  \<^item> a Go pointer that the code tests against \<^verbatim>\<open>nil\<close> somewhere is an \<open>option\<close>; reading
    through it where the code does not test it first is the outcome \<open>Panic NilDereference\<close>;
  \<^item> a Go \<^verbatim>\<open>(value, error)\<close> return is \<open>Ok\<close>/\<open>Err\<close>; a run-time panic is \<open>Panic\<close>;
  \<^item> \<^verbatim>\<open>float64\<close> amounts are real numbers; the only rounding the code performs is the call of
    \<^verbatim>\<open>FormatAmount\<close>, which is a parameter of the model;
  \<^item> \<^verbatim>\<open>bson.ObjectId\<close> values are their hexadecimal strings, \<^verbatim>\<open>time.Time\<close> values are
    integers (Unix seconds);
  \<^item> everything that package manager imports and that is declared elsewhere (the managers of
    projects, currencies, rates, commissions and VAT, the GeoIP reader, the repository, the
    payment system handlers, SHA-256) is a field of the record \<open>OrderManager\<close>.
\<close>

subsection \<open>Outcomes\<close>

text \<open>Modelled from the spec: the order statuses are constants of package model; section 3 of the
  specification names New, PaymentSystemCreate, PaymentSystemReject, PaymentSystemComplete and
  Complete and leaves the others open.\<close>

datatype OrderStatus =
    OrderStatusNew
  | OrderStatusPaymentSystemCreate
  | OrderStatusPaymentSystemReject
  | OrderStatusPaymentSystemComplete
  | OrderStatusComplete
  | OrderStatusOther nat

datatype error =
    orderErrorProjectNotFound
  | orderErrorProjectInactive
  | orderErrorPaymentMethodNotAllowed
  | orderErrorPaymentMethodNotFound
  | orderErrorPaymentMethodInactive
  | orderErrorPaymentSystemNotFound
  | orderErrorPaymentSystemInactive
  | orderErrorPayerRegionUnknown
  | orderErrorFixedPackageForRegionNotFound
  | orderErrorFixedPackageNotFound
  | orderErrorProjectOrderIdIsDuplicate
  | orderErrorDynamicNotifyUrlsNotAllowed
  | orderErrorDynamicRedirectUrlsNotAllowed
  | orderErrorCurrencyNotFound
  | orderErrorAmountLowerThanMinAllowed
  | orderErrorAmountGreaterThanMaxAllowed
  | orderErrorAmountLowerThanMinAllowedPaymentMethod
  | orderErrorAmountGreaterThanMaxAllowedPaymentMethod
  | orderErrorCanNotCreate
  | orderErrorSignatureInvalid
  | orderErrorNotFound
  | orderErrorOrderAlreadyHasEndedStatus OrderStatus
  | orderErrorOrderPaymentMethodIncomeCurrencyNotFound
  | orderErrorOrderPSPAccountingCurrencyNotFound
  | ExternalError string

datatype panic = NilDereference | IndexOutOfRange | InvalidObjectIdHex | NilTypeAssertion

datatype ('e, 'a) result = Ok 'a | Err 'e | Panic panic

definition bindR :: "('e, 'a) result \<Rightarrow> ('a \<Rightarrow> ('e, 'b) result) \<Rightarrow> ('e, 'b) result" where
  "bindR m f = (case m of Ok x \<Rightarrow> f x | Err e \<Rightarrow> Err e | Panic p \<Rightarrow> Panic p)"

subsection \<open>Library functions of Go used by the code\<close>

text \<open>\<^verbatim>\<open>strconv.ParseInt(s, 10, 64)\<close> and \<^verbatim>\<open>strconv.Atoi\<close> (64-bit \<^verbatim>\<open>int\<close>): an optional
  sign, then at least one decimal digit and nothing else; a value outside the signed 64-bit range
  is an error. \<open>None\<close> is the error.\<close>

definition digit_val :: "char \<Rightarrow> nat option" where
  "digit_val c = (let n = (of_char c :: nat) in if 48 \<le> n \<and> n \<le> 57 then Some (n - 48) else None)"

fun parse_digits :: "string \<Rightarrow> nat \<Rightarrow> nat option" where
  "parse_digits [] acc = Some acc"
| "parse_digits (c # cs) acc =
     (case digit_val c of None \<Rightarrow> None | Some d \<Rightarrow> parse_digits cs (acc * 10 + d))"

definition ParseInt :: "string \<Rightarrow> int option" where
  "ParseInt s =
     (case s of
        [] \<Rightarrow> None
      | c # cs \<Rightarrow>
          (let neg = (c = CHR ''-'');
               ds = (if c = CHR ''-'' \<or> c = CHR ''+'' then cs else s)
           in if ds = [] then None
              else (case parse_digits ds 0 of
                      None \<Rightarrow> None
                    | Some n \<Rightarrow>
                        (let v = (if neg then - int n else int n)
                         in if - (2 ^ 63) \<le> v \<and> v < 2 ^ 63 then Some v else None))))"

text \<open>\<^verbatim>\<open>bson.ObjectIdHex\<close> panics unless its argument is 24 hexadecimal digits; the identifier
  it returns is the decoded bytes, kept here as the lower-case digits.\<close>

definition is_hex :: "char \<Rightarrow> bool" where
  "is_hex c = (let n = (of_char c :: nat) in
     (48 \<le> n \<and> n \<le> 57) \<or> (65 \<le> n \<and> n \<le> 70) \<or> (97 \<le> n \<and> n \<le> 102))"

definition hex_lower :: "char \<Rightarrow> char" where
  "hex_lower c = (let n = (of_char c :: nat) in
     if 65 \<le> n \<and> n \<le> 70 then char_of (n + 32) else c)"

definition ObjectIdHex :: "string \<Rightarrow> ('e, string) result" where
  "ObjectIdHex s =
     (if length s = 24 \<and> list_all is_hex s then Ok (map hex_lower s) else Panic InvalidObjectIdHex)"

fun ObjectIdHex_each :: "string list \<Rightarrow> ('e, string list) result" where
  "ObjectIdHex_each [] = Ok []"
| "ObjectIdHex_each (s # ss) =
     bindR (ObjectIdHex s) (\<lambda>i. bindR (ObjectIdHex_each ss) (\<lambda>is. Ok (i # is)))"

text \<open>\<^verbatim>\<open>strings.Join\<close>.\<close>

fun strings_Join :: "string list \<Rightarrow> string \<Rightarrow> string" where
  "strings_Join [] sep = []"
| "strings_Join [x] sep = x"
| "strings_Join (x # y # ys) sep = x @ sep @ strings_Join (y # ys) sep"

subsection \<open>ProcessFilters (lines 724-803)\<close>

text \<open>A \<^verbatim>\<open>bson.M\<close> document is an association list with one entry per key
  (\<^verbatim>\<open>m[k] = v\<close> is \<open>AList.update\<close>); \<^verbatim>\<open>url.Values\<close> is a map from a name to its values.\<close>

datatype bvalue =
    BObjectId string
  | BObjectIds "string list"
  | BStrings "string list"
  | BInts "int list"
  | BRegEx string string
  | BTime int
  | BDoc "(string \<times> bvalue) list"

type_synonym bsonM = "(string \<times> bvalue) list"
type_synonym urlValues = "string \<Rightarrow> string list option"

text \<open>The names of the filter fields are constants of package model, which is not part of the
  sources at hand: they are parameters.\<close>

record filterFields =
  OrderFilterFieldId :: string
  OrderFilterFieldPaymentMethods :: string
  OrderFilterFieldCountries :: string
  OrderFilterFieldStatuses :: string
  OrderFilterFieldAccount :: string
  OrderFilterFieldPMDateFrom :: string
  OrderFilterFieldPMDateTo :: string
  OrderFilterFieldProjectDateFrom :: string
  OrderFilterFieldProjectDateTo :: string

text \<open>\<^verbatim>\<open>v[0]\<close> on a slice.\<close>

definition index0 :: "'a list \<Rightarrow> ('e, 'a) result" where
  "index0 xs = (case xs of [] \<Rightarrow> Panic IndexOutOfRange | x # _ \<Rightarrow> Ok x)"

text \<open>Lines 725-727.\<close>

definition filterId :: "filterFields \<Rightarrow> urlValues \<Rightarrow> bsonM \<Rightarrow> ('e, bsonM) result" where
  "filterId ff values fltr =
     (case values (OrderFilterFieldId ff) of
        None \<Rightarrow> Ok fltr
      | Some ident \<Rightarrow>
          bindR (index0 ident) (\<lambda>i0. bindR (ObjectIdHex i0) (\<lambda>oid.
            Ok (AList.update ''_id'' (BObjectId oid) fltr))))"

text \<open>Lines 729-737.\<close>

definition filterPaymentMethods :: "filterFields \<Rightarrow> urlValues \<Rightarrow> bsonM \<Rightarrow> ('e, bsonM) result" where
  "filterPaymentMethods ff values fltr =
     (case values (OrderFilterFieldPaymentMethods ff) of
        None \<Rightarrow> Ok fltr
      | Some pms \<Rightarrow>
          bindR (ObjectIdHex_each pms) (\<lambda>fPms.
            Ok (AList.update ''payment_method.id'' (BDoc [(''$in'', BObjectIds fPms)]) fltr)))"

text \<open>Lines 739-741.\<close>

definition filterCountries :: "filterFields \<Rightarrow> urlValues \<Rightarrow> bsonM \<Rightarrow> bsonM" where
  "filterCountries ff values fltr =
     (case values (OrderFilterFieldCountries ff) of
        None \<Rightarrow> fltr
      | Some cs \<Rightarrow> AList.update ''payer_data.country_code_a2'' (BDoc [(''$in'', BStrings cs)]) fltr)"

text \<open>Lines 743-759: values that are not integers are skipped.\<close>

definition filterStatuses :: "filterFields \<Rightarrow> urlValues \<Rightarrow> bsonM \<Rightarrow> bsonM" where
  "filterStatuses ff values fltr =
     (case values (OrderFilterFieldStatuses ff) of
        None \<Rightarrow> fltr
      | Some ss \<Rightarrow>
          (let ssi = List.map_filter ParseInt ss
           in if length ssi > 0 then AList.update ''status'' (BDoc [(''$in'', BInts ssi)]) fltr
              else fltr))"

text \<open>Lines 761-764.\<close>

definition filterAccount :: "filterFields \<Rightarrow> urlValues \<Rightarrow> bsonM \<Rightarrow> ('e, bsonM) result" where
  "filterAccount ff values fltr =
     (case values (OrderFilterFieldAccount ff) of
        None \<Rightarrow> Ok fltr
      | Some a \<Rightarrow>
          bindR (index0 a) (\<lambda>a0.
            (let ar = BRegEx (''.*'' @ a0 @ ''.*'') ''i''
             in Ok (AList.update ''$or''
                  (BDoc [(''project_account'', ar), (''pm_account'', ar),
                         (''payer_data.phone'', ar), (''payer_data.email'', ar)]) fltr))))"

text \<open>One bound of a date range (lines 768-772, 774-778, 786-790, 792-796): the bound is set when
  the field is there and its first value is an integer.\<close>

definition dateBound :: "urlValues \<Rightarrow> string \<Rightarrow> string \<Rightarrow> bsonM \<Rightarrow> ('e, bsonM) result" where
  "dateBound values field operator dates =
     (case values field of
        None \<Rightarrow> Ok dates
      | Some d \<Rightarrow>
          bindR (index0 d) (\<lambda>d0.
            (case ParseInt d0 of
               Some ts \<Rightarrow> Ok (AList.update operator (BTime ts) dates)
             | None \<Rightarrow> Ok dates)))"

text \<open>Lines 766-782.\<close>

definition filterPMDates :: "filterFields \<Rightarrow> urlValues \<Rightarrow> bsonM \<Rightarrow> ('e, bsonM) result" where
  "filterPMDates ff values fltr =
     bindR (dateBound values (OrderFilterFieldPMDateFrom ff) ''$gte'' []) (\<lambda>d1.
     bindR (dateBound values (OrderFilterFieldPMDateTo ff) ''$lte'' d1) (\<lambda>pmDates.
       if length pmDates > 0 then Ok (AList.update ''pm_order_close_date'' (BDoc pmDates) fltr)
       else Ok fltr))"

text \<open>Lines 784-800; the key written at line 799 is \<^verbatim>\<open>"pm_order_close_date"\<close>.\<close>

definition filterProjectDates :: "filterFields \<Rightarrow> urlValues \<Rightarrow> bsonM \<Rightarrow> ('e, bsonM) result" where
  "filterProjectDates ff values fltr =
     bindR (dateBound values (OrderFilterFieldProjectDateFrom ff) ''$gte'' []) (\<lambda>d1.
     bindR (dateBound values (OrderFilterFieldProjectDateTo ff) ''$lte'' d1) (\<lambda>prjDates.
       if length prjDates > 0 then Ok (AList.update ''pm_order_close_date'' (BDoc prjDates) fltr)
       else Ok fltr))"

definition ProcessFilters :: "filterFields \<Rightarrow> urlValues \<Rightarrow> bsonM \<Rightarrow> ('e, bsonM) result" where
  "ProcessFilters ff values fltr =
     bindR (filterId ff values fltr) (\<lambda>f1.
     bindR (filterPaymentMethods ff values f1) (\<lambda>f2.
     bindR (filterAccount ff values (filterStatuses ff values (filterCountries ff values f2))) (\<lambda>f5.
     bindR (filterPMDates ff values f5) (\<lambda>f6.
       filterProjectDates ff values f6))))"

text \<open>Field names for the examples.\<close>

definition exampleFields :: filterFields where
  "exampleFields =
     \<lparr> OrderFilterFieldId = ''id'',
       OrderFilterFieldPaymentMethods = ''payment_method[]'',
       OrderFilterFieldCountries = ''country[]'',
       OrderFilterFieldStatuses = ''status[]'',
       OrderFilterFieldAccount = ''account'',
       OrderFilterFieldPMDateFrom = ''pm_date_from'',
       OrderFilterFieldPMDateTo = ''pm_date_to'',
       OrderFilterFieldProjectDateFrom = ''project_date_from'',
       OrderFilterFieldProjectDateTo = ''project_date_to'' \<rparr>"

definition bothRanges :: urlValues where
  "bothRanges =
     [''pm_date_from'' \<mapsto> [''100''], ''pm_date_to'' \<mapsto> [''200''],
      ''project_date_from'' \<mapsto> [''300''], ''project_date_to'' \<mapsto> [''400'']]"

definition projectRangeOnly :: urlValues where
  "projectRangeOnly = [''project_date_from'' \<mapsto> [''300''], ''project_date_to'' \<mapsto> [''400'']]"


subsection \<open>The data model (package model, read off its uses in package manager)\<close>

text \<open>Package model is not part of the sources at hand. Each record below has the fields that
  the functions embedded here read or write, with the types their uses force. A field that two
  records share carries the record's name in front.\<close>

record Currency =
  CodeInt :: int
  CodeA3 :: string
  Currency_Name :: string

record Merchant =
  Merchant_Currency :: Currency
  IsCommissionToUserEnabled :: bool
  IsVatEnabled :: bool

record ProjectPaymentModes =
  ProjectPaymentModes_Id :: string
  AddedAt :: int

record FixedPackage =
  FixedPackage_Name :: string
  FixedPackage_CurrencyInt :: int
  FixedPackage_Price :: real
  FixedPackage_Currency :: Currency

record OrderFixedPackage =
  OrderFixedPackage_Id :: nat
  OrderFixedPackage_Region :: string
  OrderFixedPackage_Name :: string
  OrderFixedPackage_CurrencyInt :: int
  OrderFixedPackage_Price :: real

record PaymentSystem =
  PaymentSystem_IsActive :: bool
  AccountingCurrency :: Currency

record PaymentMethod =
  PaymentMethod_Id :: string
  PaymentMethod_Name :: string
  PaymentMethod_Params :: "(string \<times> string) list"
  PaymentMethod_PaymentSystem :: "PaymentSystem option"
  PaymentMethod_GroupAlias :: string
  PaymentMethod_IsActive :: bool
  PaymentMethod_Currency :: Currency
  PaymentMethod_MinPaymentAmount :: real
  PaymentMethod_MaxPaymentAmount :: real

record Project =
  Project_Id :: string
  Project_Name :: string
  Project_Merchant :: Merchant
  IsActive :: bool
  OnlyFixedAmounts :: bool
  LimitsCurrency :: Currency
  MinPaymentAmount :: real
  MaxPaymentAmount :: real
  PaymentMethods :: "string \<Rightarrow> ProjectPaymentModes list option"
  Project_FixedPackage :: "string \<Rightarrow> FixedPackage list option"
  SecretKey :: string
  IsAllowDynamicNotifyUrls :: bool
  IsAllowDynamicRedirectUrls :: bool
  CallbackCurrency :: Currency

text \<open>\<^verbatim>\<open>RawRequestParams\<close> is a Go map: an association list with distinct keys, in the order
  in which \<^verbatim>\<open>range\<close> happens to visit it.\<close>

record OrderScalar =
  Amount :: real
  OrderScalar_Currency :: "string option"
  Region :: "string option"
  CreateOrderIp :: string
  RawRequestParams :: "(string \<times> string) list"
  Signature :: "string option"
  OrderScalar_PaymentMethod :: "string option"
  ProjectId :: string
  OrderId :: "string option"
  Account :: string
  UrlVerify :: "string option"
  UrlNotify :: "string option"
  UrlSuccess :: "string option"
  UrlFail :: "string option"
  Other :: "(string \<times> string) list"
  PayerPhone :: "string option"
  PayerEmail :: "string option"
  IsJsonRequest :: bool
  OrderScalar_Description :: "string option"

text \<open>The record of \<^verbatim>\<open>geoip2.City\<close>, with the fields the code reads.\<close>

record City =
  Country_IsoCode :: string
  Country_Names :: "string \<Rightarrow> string option"
  City_Names :: "string \<Rightarrow> string option"
  Subdivisions_IsoCode :: "string list"
  Location_TimeZone :: string

record Name =
  EN :: string
  RU :: string

record PayerData =
  Ip :: string
  CountryCodeA2 :: string
  CountryName :: Name
  PayerData_City :: Name
  Subdivision :: string
  Timezone :: string
  Phone :: "string option"
  Email :: "string option"

record ProjectOrder =
  ProjectOrder_Id :: string
  ProjectOrder_Name :: string
  ProjectOrder_Merchant :: Merchant

record OrderPaymentMethod =
  OrderPaymentMethod_Id :: string
  OrderPaymentMethod_Name :: string
  OrderPaymentMethod_Params :: "(string \<times> string) list"
  OrderPaymentMethod_PaymentSystem :: "PaymentSystem option"
  OrderPaymentMethod_GroupAlias :: string

record CommissionOrder =
  PspCommission :: real
  PMCommission :: real
  ToUserCommission :: real

record Order =
  Order_Id :: string
  Order_Project :: ProjectOrder
  Order_Description :: string
  ProjectOrderId :: "string option"
  ProjectAccount :: string
  ProjectIncomeAmount :: real
  ProjectIncomeCurrency :: "Currency option"
  ProjectOutcomeAmount :: real
  ProjectOutcomeCurrency :: Currency
  ProjectParams :: "(string \<times> string) list"
  Order_PayerData :: PayerData
  Status :: OrderStatus
  CreatedAt :: int
  UpdatedAt :: int
  Order_IsJsonRequest :: bool
  Order_FixedPackage :: "OrderFixedPackage option"
  AmountInMerchantAccountingCurrency :: real
  VatAmount :: real
  Order_PaymentMethod :: "OrderPaymentMethod option"
  PaymentMethodOutcomeAmount :: real
  PaymentMethodOutcomeCurrency :: "Currency option"
  ProjectFeeAmount :: real
  PaymentMethodFeeAmount :: real
  PspFeeAmount :: real
  ToPayerFeeAmount :: real
  PaymentMethodIncomeCurrencyA3 :: string
  PaymentMethodIncomeCurrency :: "Currency option"
  PaymentMethodIncomeAmount :: real
  AmountInPSPAccountingCurrency :: real
  AmountOutMerchantAccountingCurrency :: real
  AmountInPaymentSystemAccountingCurrency :: real

record OrderPaymentNotification =
  OrderPaymentNotification_Id :: string
  Request :: "(string \<times> string) list"


subsection \<open>The order manager and its collaborators\<close>

text \<open>The collaborators are declared outside the sources at hand; the manager holds them as
  functions. A Go return \<^verbatim>\<open>(v, err)\<close> whose value is used although \<^verbatim>\<open>err\<close> is set is a pair
  of the value and an optional error. The repository works on a database state \<open>'db\<close>:
  a write returns the new state. The payment handler is the result of
  \<^verbatim>\<open>GetPaymentHandler\<close>: its \<^verbatim>\<open>ProcessPayment\<close> returns an order and an optional error
  and leaves the database alone.\<close>

type_synonym PaymentHandler = "Order \<Rightarrow> OrderPaymentNotification \<Rightarrow> Order \<times> error option"

record 'db OrderManager =
  FindProjectById :: "string \<Rightarrow> Project option"
  FindByCodeA3 :: "string \<Rightarrow> Currency option"
  paymentMethodManager_FindById :: "string \<Rightarrow> PaymentMethod option"
  convert :: "int \<Rightarrow> int \<Rightarrow> real \<Rightarrow> real \<times> error option"
  CalculateCommission :: "string \<Rightarrow> string \<Rightarrow> real \<Rightarrow> CommissionOrder option \<times> error option"
  CalculateVat :: "string \<Rightarrow> string \<Rightarrow> real \<Rightarrow> real \<times> error option"
  geoDbReader_City :: "string \<Rightarrow> City option"
  FormatAmount :: "real \<Rightarrow> real"
  sha256 :: "string \<Rightarrow> string"
  pspAccountingCurrency :: "Currency option"
  GetPaymentHandler :: "Order \<Rightarrow> (string \<times> string) list \<Rightarrow> (error, PaymentHandler) result"
  FindOrderByProjectOrderId :: "'db \<Rightarrow> string \<Rightarrow> Order option"
  FindOrderById :: "'db \<Rightarrow> string \<Rightarrow> Order option"
  InsertOrder :: "Order \<Rightarrow> 'db \<Rightarrow> error option \<times> 'db"
  UpdateOrder :: "Order \<Rightarrow> 'db \<Rightarrow> error option \<times> 'db"

record check =
  check_order :: OrderScalar
  check_project :: Project
  oCurrency :: "Currency option"
  paymentMethod :: "PaymentMethod option"

record pmOutcomeData =
  pmOutcomeData_amount :: real
  pmOutcomeData_currency :: Currency

text \<open>The zero value of \<^verbatim>\<open>model.OrderScalar\<close>.\<close>

definition zeroOrderScalar :: OrderScalar where
  "zeroOrderScalar =
     \<lparr> Amount = 0, OrderScalar_Currency = None, Region = None, CreateOrderIp = [],
       RawRequestParams = [], Signature = None, OrderScalar_PaymentMethod = None, ProjectId = [],
       OrderId = None, Account = [], UrlVerify = None, UrlNotify = None, UrlSuccess = None,
       UrlFail = None, Other = [], PayerPhone = None, PayerEmail = None, IsJsonRequest = False,
       OrderScalar_Description = None \<rparr>"

text \<open>\<^verbatim>\<open>convert\<close> followed by \<^verbatim>\<open>if err != nil { return ..., err }\<close>.\<close>

definition convertChecked :: "'db OrderManager \<Rightarrow> int \<Rightarrow> int \<Rightarrow> real \<Rightarrow> (error, real) result" where
  "convertChecked om src dst amount =
     (case convert om src dst amount of (v, None) \<Rightarrow> Ok v | (v, Some e) \<Rightarrow> Err e)"

subsection \<open>getPaymentMethod (lines 406-422) and checkPaymentMethod (lines 493-521)\<close>

text \<open>The loop of lines 415-419; \<^verbatim>\<open>opm.AddedAt.Before(ppm.AddedAt)\<close> is \<open><\<close>.\<close>

fun latestAdded :: "ProjectPaymentModes option \<Rightarrow> ProjectPaymentModes list \<Rightarrow> ProjectPaymentModes option" where
  "latestAdded opm [] = opm"
| "latestAdded opm (ppm # cpms) =
     latestAdded
       (case opm of
          None \<Rightarrow> Some ppm
        | Some cur \<Rightarrow> if AddedAt cur < AddedAt ppm then Some ppm else Some cur)
       cpms"

definition getPaymentMethod ::
  "OrderScalar \<Rightarrow> (string \<Rightarrow> ProjectPaymentModes list option) \<Rightarrow> (error, ProjectPaymentModes option) result" where
  "getPaymentMethod order pms =
     (case OrderScalar_PaymentMethod order of
        None \<Rightarrow> Panic NilDereference
      | Some name \<Rightarrow>
          (case pms name of
             None \<Rightarrow> Err orderErrorPaymentMethodNotAllowed
           | Some cpms \<Rightarrow>
               if length cpms \<le> 0 then Err orderErrorPaymentMethodNotAllowed
               else Ok (latestAdded None cpms)))"

definition checkPaymentMethod :: "'db OrderManager \<Rightarrow> check \<Rightarrow> (error, PaymentMethod) result" where
  "checkPaymentMethod om c =
     bindR (getPaymentMethod (check_order c) (PaymentMethods (check_project c))) (\<lambda>opm.
       case opm of
         None \<Rightarrow> Panic NilDereference
       | Some m \<Rightarrow>
           (case paymentMethodManager_FindById om (ProjectPaymentModes_Id m) of
              None \<Rightarrow> Err orderErrorPaymentMethodNotFound
            | Some pm \<Rightarrow>
                if PaymentMethod_IsActive pm = False then Err orderErrorPaymentMethodInactive
                else (case PaymentMethod_PaymentSystem pm of
                        None \<Rightarrow> Err orderErrorPaymentSystemNotFound
                      | Some ps \<Rightarrow>
                          if PaymentSystem_IsActive ps = False then Err orderErrorPaymentSystemInactive
                          else Ok pm)))"

subsection \<open>checkProjectOrderIdUnique (lines 424-440)\<close>

definition checkProjectOrderIdUnique :: "'db OrderManager \<Rightarrow> 'db \<Rightarrow> OrderScalar \<Rightarrow> error option" where
  "checkProjectOrderIdUnique om db order =
     (case OrderId order of
        None \<Rightarrow> None
      | Some oid \<Rightarrow>
          (case FindOrderByProjectOrderId om db oid of
             None \<Rightarrow> None
           | Some existing \<Rightarrow> Some orderErrorProjectOrderIdIsDuplicate))"

subsection \<open>checkProjectLimits (lines 442-463) and checkPaymentMethodLimits (lines 465-491)\<close>

text \<open>Lines 444-452: the amount that is compared with the limits of the project.\<close>

definition projectLimitsAmount :: "'db OrderManager \<Rightarrow> check \<Rightarrow> (error, real) result" where
  "projectLimitsAmount om c =
     (case oCurrency c of
        None \<Rightarrow> Ok (Amount (check_order c))
      | Some oc \<Rightarrow>
          if CodeA3 oc \<noteq> CodeA3 (LimitsCurrency (check_project c))
          then convertChecked om (CodeInt oc) (CodeInt (LimitsCurrency (check_project c)))
                 (Amount (check_order c))
          else Ok (Amount (check_order c)))"

definition checkProjectLimits :: "'db OrderManager \<Rightarrow> check \<Rightarrow> (error, unit) result" where
  "checkProjectLimits om c =
     bindR (projectLimitsAmount om c) (\<lambda>cAmount.
       if cAmount < MinPaymentAmount (check_project c) then Err orderErrorAmountLowerThanMinAllowed
       else if cAmount > MaxPaymentAmount (check_project c) then Err orderErrorAmountGreaterThanMaxAllowed
       else Ok ())"

definition checkPaymentMethodLimits :: "'db OrderManager \<Rightarrow> check \<Rightarrow> (error, pmOutcomeData) result" where
  "checkPaymentMethodLimits om c =
     (case paymentMethod c of
        None \<Rightarrow> Panic NilDereference
      | Some pm \<Rightarrow>
          bindR (case oCurrency c of
                   None \<Rightarrow> Ok (Amount (check_order c))
                 | Some oc \<Rightarrow>
                     if CodeA3 oc \<noteq> CodeA3 (PaymentMethod_Currency pm)
                     then convertChecked om (CodeInt oc) (CodeInt (PaymentMethod_Currency pm))
                            (Amount (check_order c))
                     else Ok (Amount (check_order c)))
            (\<lambda>cAmount.
               if cAmount < PaymentMethod_MinPaymentAmount pm
               then Err orderErrorAmountLowerThanMinAllowedPaymentMethod
               else if cAmount > PaymentMethod_MaxPaymentAmount pm
               then Err orderErrorAmountGreaterThanMaxAllowedPaymentMethod
               else Ok \<lparr> pmOutcomeData_amount = cAmount,
                         pmOutcomeData_currency = PaymentMethod_Currency pm \<rparr>))"

subsection \<open>getOrderFixedPackage (lines 523-572)\<close>

text \<open>The loop of lines 550-557 from index \<open>i\<close> on; \<open>found\<close> is the pair of \<^verbatim>\<open>ofp\<close> and
  \<^verbatim>\<open>ofpId\<close>. The currency of the request is read only when the price is the amount.\<close>

fun scanFixedPackages ::
  "real \<Rightarrow> string option \<Rightarrow> nat \<Rightarrow> (FixedPackage \<times> nat) option \<Rightarrow> FixedPackage list
     \<Rightarrow> (error, (FixedPackage \<times> nat) option) result" where
  "scanFixedPackages amount cur i found [] = Ok found"
| "scanFixedPackages amount cur i found (fp # fps) =
     (if FixedPackage_Price fp \<noteq> amount then scanFixedPackages amount cur (i + 1) found fps
      else (case cur of
              None \<Rightarrow> Panic NilDereference
            | Some code \<Rightarrow>
                if CodeA3 (FixedPackage_Currency fp) \<noteq> code
                then scanFixedPackages amount cur (i + 1) found fps
                else scanFixedPackages amount cur (i + 1) (Some (fp, i)) fps))"

definition getOrderFixedPackage :: "'db OrderManager \<Rightarrow> check \<Rightarrow> (error, City \<times> OrderFixedPackage) result" where
  "getOrderFixedPackage om c =
     (let region0 = (case Region (check_order c) of Some r \<Rightarrow> r | None \<Rightarrow> [])
      in case geoDbReader_City om (CreateOrderIp (check_order c)) of
           None \<Rightarrow> Err orderErrorPayerRegionUnknown
         | Some gRecord \<Rightarrow>
             (let region = (if region0 = [] then Country_IsoCode gRecord else region0)
              in case Project_FixedPackage (check_project c) region of
                   None \<Rightarrow> Err orderErrorFixedPackageForRegionNotFound
                 | Some fps \<Rightarrow>
                     if length fps \<le> 0 then Err orderErrorFixedPackageForRegionNotFound
                     else bindR (scanFixedPackages (Amount (check_order c))
                                   (OrderScalar_Currency (check_order c)) 0 None fps)
                            (\<lambda>found.
                               case found of
                                 None \<Rightarrow> Err orderErrorFixedPackageNotFound
                               | Some (ofp, ofpId) \<Rightarrow>
                                   Ok (gRecord,
                                       \<lparr> OrderFixedPackage_Id = ofpId,
                                         OrderFixedPackage_Region = region,
                                         OrderFixedPackage_Name = FixedPackage_Name ofp,
                                         OrderFixedPackage_CurrencyInt = FixedPackage_CurrencyInt ofp,
                                         OrderFixedPackage_Price = FixedPackage_Price ofp \<rparr>))))"

subsection \<open>checkSignature (lines 574-597)\<close>

text \<open>\<^verbatim>\<open>m[k]\<close> on a Go map of strings.\<close>

definition mapIndex :: "(string \<times> string) list \<Rightarrow> string \<Rightarrow> string" where
  "mapIndex m k = (case map_of m k of Some v \<Rightarrow> v | None \<Rightarrow> [])"

definition orderSignatureElementsGlue :: string where
  "orderSignatureElementsGlue = ''|''"

text \<open>Lines 575-590: the text that is hashed. \<^verbatim>\<open>sort.Strings\<close> is \<open>sort\<close> with the
  lexicographic order of the bytes.\<close>

definition signatureText :: "(string \<times> string) list \<Rightarrow> string \<Rightarrow> string" where
  "signatureText params secret =
     (let keys = sort (map fst params);
          gs = map (\<lambda>k. k @ ''='' @ mapIndex params k) keys
      in strings_Join gs orderSignatureElementsGlue @ orderSignatureElementsGlue @ secret)"

definition checkSignature :: "'db OrderManager \<Rightarrow> check \<Rightarrow> (error, unit) result" where
  "checkSignature om c =
     (let h = sha256 om (signatureText (RawRequestParams (check_order c)) (SecretKey (check_project c)))
      in case Signature (check_order c) of
           None \<Rightarrow> Panic NilDereference
         | Some sig \<Rightarrow> if h \<noteq> sig then Err orderErrorSignatureInvalid else Ok ())"


subsection \<open>Process (lines 117-332)\<close>

text \<open>Lines 126-176: the project, the currency of the request, the signature and the payment
  method. The result is the \<^verbatim>\<open>check\<close> structure with the payment method filled in.\<close>

definition Process_resolve :: "'db OrderManager \<Rightarrow> OrderScalar \<Rightarrow> (error, check) result" where
  "Process_resolve om order =
     (case FindProjectById om (ProjectId order) of
        None \<Rightarrow> Err orderErrorProjectNotFound
      | Some p \<Rightarrow>
          if IsActive p = False then Err orderErrorProjectInactive
          else
            bindR (case OrderScalar_Currency order of
                     None \<Rightarrow> Ok None
                   | Some code \<Rightarrow>
                       (case FindByCodeA3 om code of
                          None \<Rightarrow> Err orderErrorCurrencyNotFound
                        | Some cur \<Rightarrow> Ok (Some cur)))
              (\<lambda>oCur.
                 let c = \<lparr> check_order = zeroOrderScalar
                             \<lparr> Amount := Amount order,
                               OrderScalar_Currency := OrderScalar_Currency order,
                               Region := Region order,
                               CreateOrderIp := CreateOrderIp order,
                               RawRequestParams := RawRequestParams order,
                               Signature := Signature order,
                               OrderScalar_PaymentMethod := OrderScalar_PaymentMethod order \<rparr>,
                           check_project = p, oCurrency = oCur, paymentMethod = None \<rparr>
                 in bindR (if Signature order \<noteq> None then checkSignature om c else Ok ()) (\<lambda>_.
                    bindR (if OrderScalar_PaymentMethod order \<noteq> None
                           then bindR (checkPaymentMethod om c) (\<lambda>pm. Ok (Some pm))
                           else Ok None) (\<lambda>pm.
                      Ok (c \<lparr> paymentMethod := pm \<rparr>)))))"

text \<open>Lines 178-184: \<^verbatim>\<open>gRecord\<close> and \<^verbatim>\<open>ofp\<close> stay \<^verbatim>\<open>nil\<close> unless the project sells
  fixed amounts only.\<close>

definition Process_fixedPackage ::
  "'db OrderManager \<Rightarrow> check \<Rightarrow> (error, City option \<times> OrderFixedPackage option) result" where
  "Process_fixedPackage om c =
     (if OnlyFixedAmounts (check_project c) = True
      then bindR (getOrderFixedPackage om c) (\<lambda>(gRecord, ofp). Ok (Some gRecord, Some ofp))
      else Ok (None, None))"

text \<open>Lines 190-223: the limits of the payment method, the commissions and the VAT. The result
  is \<^verbatim>\<open>pmOutcomeData\<close>, \<^verbatim>\<open>commissions\<close> and \<^verbatim>\<open>vatAmount\<close>.\<close>

definition Process_paymentMethodAmounts ::
  "'db OrderManager \<Rightarrow> OrderScalar \<Rightarrow> check \<Rightarrow> City option
     \<Rightarrow> (error, pmOutcomeData option \<times> CommissionOrder option \<times> real) result" where
  "Process_paymentMethodAmounts om order c gRecord =
     (if OrderScalar_PaymentMethod order \<noteq> None then
        bindR (checkPaymentMethodLimits om c) (\<lambda>pmOut.
          case paymentMethod c of
            None \<Rightarrow> Panic NilDereference
          | Some pm \<Rightarrow>
              (case CalculateCommission om (Project_Id (check_project c)) (PaymentMethod_Id pm)
                      (pmOutcomeData_amount pmOut) of
                 (commissions, Some e) \<Rightarrow> Err e
               | (commissions, None) \<Rightarrow>
                   bindR (if IsCommissionToUserEnabled (Project_Merchant (check_project c)) = True
                          then (case commissions of
                                  None \<Rightarrow> Panic NilDereference
                                | Some cm \<Rightarrow> Ok (pmOutcomeData_amount pmOut + ToUserCommission cm))
                          else Ok (pmOutcomeData_amount pmOut)) (\<lambda>pmOutAmount1.
                   bindR (if IsVatEnabled (Project_Merchant (check_project c)) = True
                          then (case gRecord of
                                  None \<Rightarrow> Panic NilDereference
                                | Some g \<Rightarrow>
                                    bindR (index0 (Subdivisions_IsoCode g)) (\<lambda>sd.
                                      case CalculateVat om (Country_IsoCode g) sd (pmOutcomeData_amount pmOut) of
                                        (v, Some e) \<Rightarrow> Err e
                                      | (v, None) \<Rightarrow> Ok (v, pmOutAmount1 + v)))
                          else Ok (0, pmOutAmount1)) (\<lambda>(vatAmount, pmOutAmount2).
                     Ok (Some (pmOut \<lparr> pmOutcomeData_amount := pmOutAmount2 \<rparr>), commissions, vatAmount)))))
      else Ok (None, None, 0))"

text \<open>Lines 225-237: the order identifier of the project and the dynamic addresses.\<close>

definition Process_requestChecks :: "'db OrderManager \<Rightarrow> 'db \<Rightarrow> OrderScalar \<Rightarrow> Project \<Rightarrow> (error, unit) result" where
  "Process_requestChecks om db order p =
     (case (if OrderId order \<noteq> None then checkProjectOrderIdUnique om db order else None) of
        Some e \<Rightarrow> Err e
      | None \<Rightarrow>
          if (UrlVerify order \<noteq> None \<or> UrlNotify order \<noteq> None) \<and> IsAllowDynamicNotifyUrls p = False
          then Err orderErrorDynamicNotifyUrlsNotAllowed
          else if (UrlSuccess order \<noteq> None \<or> UrlFail order \<noteq> None) \<and> IsAllowDynamicRedirectUrls p = False
          then Err orderErrorDynamicRedirectUrlsNotAllowed
          else Ok ())"

text \<open>\<^verbatim>\<open>m["en"]\<close> on the names of a GeoIP record.\<close>

definition namesAt :: "(string \<Rightarrow> string option) \<Rightarrow> string \<Rightarrow> string" where
  "namesAt m k = (case m k of Some v \<Rightarrow> v | None \<Rightarrow> [])"

text \<open>Lines 259-268: the data of the payer; \<^verbatim>\<open>gRecord\<close> is read without a test.\<close>

definition Process_payerData :: "OrderScalar \<Rightarrow> City option \<Rightarrow> (error, PayerData) result" where
  "Process_payerData order gRecord =
     (case gRecord of
        None \<Rightarrow> Panic NilDereference
      | Some g \<Rightarrow>
          bindR (index0 (Subdivisions_IsoCode g)) (\<lambda>sd.
            Ok \<lparr> Ip = CreateOrderIp order,
                 CountryCodeA2 = Country_IsoCode g,
                 CountryName = \<lparr> EN = namesAt (Country_Names g) ''en'', RU = namesAt (Country_Names g) ''ru'' \<rparr>,
                 PayerData_City = \<lparr> EN = namesAt (City_Names g) ''en'', RU = namesAt (City_Names g) ''ru'' \<rparr>,
                 Subdivision = sd,
                 Timezone = Location_TimeZone g,
                 Phone = PayerPhone order,
                 Email = PayerEmail order \<rparr>))"

text \<open>Lines 239-279: the new order. The errors of the two conversions are dropped; the fields
  that the literal does not name have their zero values.\<close>

definition Process_assemble ::
  "'db OrderManager \<Rightarrow> int \<Rightarrow> string \<Rightarrow> OrderScalar \<Rightarrow> Project \<Rightarrow> Currency option \<Rightarrow> City option
     \<Rightarrow> OrderFixedPackage option \<Rightarrow> real \<Rightarrow> (error, Order) result" where
  "Process_assemble om now ident order p oCur gRecord ofp vatAmount =
     (case oCur of
        None \<Rightarrow> Panic NilDereference
      | Some oc \<Rightarrow>
          (let mACAmount = fst (convert om (CodeInt oc) (CodeInt (Merchant_Currency (Project_Merchant p))) (Amount order));
               pOutAmount = fst (convert om (CodeInt oc) (CodeInt (CallbackCurrency p)) (Amount order))
           in bindR (Process_payerData order gRecord) (\<lambda>payer.
                let nOrder =
                  \<lparr> Order_Id = ident,
                    Order_Project = \<lparr> ProjectOrder_Id = Project_Id p, ProjectOrder_Name = Project_Name p,
                                      ProjectOrder_Merchant = Project_Merchant p \<rparr>,
                    Order_Description = ''Payment by order # '' @ ident,
                    ProjectOrderId = OrderId order,
                    ProjectAccount = Account order,
                    ProjectIncomeAmount = FormatAmount om (Amount order),
                    ProjectIncomeCurrency = oCur,
                    ProjectOutcomeAmount = FormatAmount om pOutAmount,
                    ProjectOutcomeCurrency = CallbackCurrency p,
                    ProjectParams = Other order,
                    Order_PayerData = payer,
                    Status = OrderStatusNew,
                    CreatedAt = now,
                    UpdatedAt = 0,
                    Order_IsJsonRequest = IsJsonRequest order,
                    Order_FixedPackage = ofp,
                    AmountInMerchantAccountingCurrency = FormatAmount om mACAmount,
                    VatAmount = FormatAmount om vatAmount,
                    Order_PaymentMethod = None,
                    PaymentMethodOutcomeAmount = 0,
                    PaymentMethodOutcomeCurrency = None,
                    ProjectFeeAmount = 0,
                    PaymentMethodFeeAmount = 0,
                    PspFeeAmount = 0,
                    ToPayerFeeAmount = 0,
                    PaymentMethodIncomeCurrencyA3 = [],
                    PaymentMethodIncomeCurrency = None,
                    PaymentMethodIncomeAmount = 0,
                    AmountInPSPAccountingCurrency = 0,
                    AmountOutMerchantAccountingCurrency = 0,
                    AmountInPaymentSystemAccountingCurrency = 0 \<rparr>
                in Ok (case OrderScalar_Description order of
                         Some d \<Rightarrow> nOrder \<lparr> Order_Description := d \<rparr>
                       | None \<Rightarrow> nOrder))))"

text \<open>The payment method as the order stores it (lines 282-288 and 1049-1055).\<close>

definition orderPaymentMethod :: "PaymentMethod \<Rightarrow> OrderPaymentMethod" where
  "orderPaymentMethod pm =
     \<lparr> OrderPaymentMethod_Id = PaymentMethod_Id pm,
       OrderPaymentMethod_Name = PaymentMethod_Name pm,
       OrderPaymentMethod_Params = PaymentMethod_Params pm,
       OrderPaymentMethod_PaymentSystem = PaymentMethod_PaymentSystem pm,
       OrderPaymentMethod_GroupAlias = PaymentMethod_GroupAlias pm \<rparr>"

text \<open>Lines 293-322: the fees of the new order.\<close>

definition Process_commissions ::
  "'db OrderManager \<Rightarrow> Project \<Rightarrow> PaymentMethod \<Rightarrow> CommissionOrder \<Rightarrow> Order \<Rightarrow> (error, Order) result" where
  "Process_commissions om p pm cm nOrder =
     (let n1 = nOrder \<lparr> ProjectFeeAmount := FormatAmount om (PspCommission cm + PMCommission cm),
                       PaymentMethodFeeAmount := FormatAmount om (PMCommission cm) \<rparr>
      in bindR (convertChecked om (CodeInt (PaymentMethod_Currency pm))
                  (CodeInt (Merchant_Currency (Project_Merchant p))) (PMCommission cm)) (\<lambda>pspConvertCommission.
           let n2 = n1 \<lparr> PspFeeAmount := FormatAmount om pspConvertCommission \<rparr>;
               n3 = (if IsCommissionToUserEnabled (Project_Merchant p) = True
                     then (let n' = n2 \<lparr> ToPayerFeeAmount := FormatAmount om (ToUserCommission cm) \<rparr>
                           in n' \<lparr> ProjectFeeAmount := FormatAmount om (ProjectFeeAmount n' - ToPayerFeeAmount n') \<rparr>)
                     else n2)
           in bindR (convertChecked om (CodeInt (PaymentMethod_Currency pm))
                       (CodeInt (Merchant_Currency (Project_Merchant p))) (ProjectFeeAmount n3)) (\<lambda>prjConvertCommission.
                Ok (n3 \<lparr> ProjectFeeAmount := FormatAmount om prjConvertCommission \<rparr>))))"

text \<open>Lines 281-323.\<close>

definition Process_paymentMethod ::
  "'db OrderManager \<Rightarrow> OrderScalar \<Rightarrow> Project \<Rightarrow> PaymentMethod option \<Rightarrow> pmOutcomeData option
     \<Rightarrow> CommissionOrder option \<Rightarrow> Order \<Rightarrow> (error, Order) result" where
  "Process_paymentMethod om order p pm pmOut commissions nOrder =
     (if OrderScalar_PaymentMethod order \<noteq> None then
        (case pm of
           None \<Rightarrow> Panic NilDereference
         | Some m \<Rightarrow>
             (case pmOut of
                None \<Rightarrow> Panic NilDereference
              | Some out \<Rightarrow>
                  (let n1 = nOrder \<lparr> Order_PaymentMethod := Some (orderPaymentMethod m),
                                    PaymentMethodOutcomeAmount := FormatAmount om (pmOutcomeData_amount out),
                                    PaymentMethodOutcomeCurrency := Some (pmOutcomeData_currency out) \<rparr>
                   in case commissions of
                        None \<Rightarrow> Ok n1
                      | Some cm \<Rightarrow> Process_commissions om p m cm n1)))
      else Ok nOrder)"

text \<open>Lines 117-323: everything before the order is written.\<close>

definition Process_build :: "'db OrderManager \<Rightarrow> int \<Rightarrow> string \<Rightarrow> 'db \<Rightarrow> OrderScalar \<Rightarrow> (error, Order) result" where
  "Process_build om now ident db order =
     bindR (Process_resolve om order) (\<lambda>c.
     bindR (Process_fixedPackage om c) (\<lambda>(gRecord, ofp).
     bindR (checkProjectLimits om c) (\<lambda>_.
     bindR (Process_paymentMethodAmounts om order c gRecord) (\<lambda>(pmOut, commissions, vatAmount).
     bindR (Process_requestChecks om db order (check_project c)) (\<lambda>_.
     bindR (Process_assemble om now ident order (check_project c) (oCurrency c) gRecord ofp vatAmount) (\<lambda>nOrder.
       Process_paymentMethod om order (check_project c) (paymentMethod c) pmOut commissions nOrder))))))"

text \<open>\<^verbatim>\<open>Process\<close>: \<open>now\<close> is the value of \<^verbatim>\<open>time.Now()\<close>, \<open>ident\<close> the one of
  \<^verbatim>\<open>bson.NewObjectId()\<close>. The result is what is returned and the state of the database.\<close>

definition Process :: "'db OrderManager \<Rightarrow> int \<Rightarrow> string \<Rightarrow> 'db \<Rightarrow> OrderScalar \<Rightarrow> (error, Order) result \<times> 'db" where
  "Process om now ident db order =
     (case Process_build om now ident db order of
        Ok nOrder \<Rightarrow>
          (case InsertOrder om nOrder db of
             (Some e, db') \<Rightarrow> (Err orderErrorCanNotCreate, db')
           | (None, db') \<Rightarrow> (Ok nOrder, db'))
      | Err e \<Rightarrow> (Err e, db)
      | Panic pn \<Rightarrow> (Panic pn, db))"


subsection \<open>modifyOrderAfterOrderFormSubmit (lines 966-1061)\<close>

text \<open>The error of \<^verbatim>\<open>CalculateCommission\<close> is overwritten at line 1003 before it is read:
  only the commissions count, and reading them through a \<^verbatim>\<open>nil\<close> pointer panics.\<close>

definition modifyOrderAfterOrderFormSubmit :: "'db OrderManager \<Rightarrow> Order \<Rightarrow> PaymentMethod \<Rightarrow> (error, Order) result" where
  "modifyOrderAfterOrderFormSubmit om ord pm =
     (if (case Order_PaymentMethod ord of
            None \<Rightarrow> False
          | Some opm \<Rightarrow> OrderPaymentMethod_Id opm = PaymentMethod_Id pm)
      then Ok ord
      else
        (case FindProjectById om (ProjectOrder_Id (Order_Project ord)) of
           None \<Rightarrow> Err orderErrorProjectNotFound
         | Some p \<Rightarrow>
             (let c = \<lparr> check_order = zeroOrderScalar \<lparr> Amount := ProjectIncomeAmount ord \<rparr>,
                        check_project = p,
                        oCurrency = ProjectIncomeCurrency ord,
                        paymentMethod = Some pm \<rparr>
              in bindR (checkPaymentMethodLimits om c) (\<lambda>pmOutData.
                   case fst (CalculateCommission om (ProjectOrder_Id (Order_Project ord)) (PaymentMethod_Id pm)
                               (pmOutcomeData_amount pmOutData)) of
                     None \<Rightarrow> Panic NilDereference
                   | Some cm \<Rightarrow>
                       (let o1 = ord \<lparr> ProjectFeeAmount := FormatAmount om (PspCommission cm + PMCommission cm),
                                       PaymentMethodFeeAmount := FormatAmount om (PMCommission cm) \<rparr>
                        in bindR (convertChecked om (CodeInt (PaymentMethod_Currency pm))
                                    (CodeInt (Merchant_Currency (Project_Merchant p))) (PMCommission cm)) (\<lambda>pspConvertCommission.
                             let o2 = o1 \<lparr> PspFeeAmount := FormatAmount om pspConvertCommission \<rparr>;
                                 toUser = (IsCommissionToUserEnabled (ProjectOrder_Merchant (Order_Project ord)) = True);
                                 pmOutAmount1 = (if toUser then pmOutcomeData_amount pmOutData + ToUserCommission cm
                                                 else pmOutcomeData_amount pmOutData);
                                 o3 = (if toUser
                                       then (let o' = o2 \<lparr> ToPayerFeeAmount := FormatAmount om (ToUserCommission cm) \<rparr>
                                             in o' \<lparr> ProjectFeeAmount := FormatAmount om (ProjectFeeAmount o' - ToPayerFeeAmount o') \<rparr>)
                                       else o2)
                             in bindR (convertChecked om (CodeInt (PaymentMethod_Currency pm))
                                         (CodeInt (Merchant_Currency (Project_Merchant p))) (ProjectFeeAmount o3)) (\<lambda>prjConvertCommission.
                                  let o4 = o3 \<lparr> ProjectFeeAmount := FormatAmount om prjConvertCommission \<rparr>
                                  in bindR (if IsVatEnabled (ProjectOrder_Merchant (Order_Project ord)) = True
                                            then (case CalculateVat om (CountryCodeA2 (Order_PayerData ord))
                                                         (Subdivision (Order_PayerData ord)) (pmOutcomeData_amount pmOutData) of
                                                    (vat, Some e) \<Rightarrow> Err e
                                                  | (vat, None) \<Rightarrow>
                                                      Ok (pmOutAmount1 + vat, o4 \<lparr> VatAmount := FormatAmount om vat \<rparr>))
                                            else Ok (pmOutAmount1, o4)) (\<lambda>(pmOutAmount2, o5).
                                       Ok (o5 \<lparr> Order_PaymentMethod := Some (orderPaymentMethod pm),
                                                PaymentMethodOutcomeAmount := FormatAmount om pmOutAmount2,
                                                PaymentMethodOutcomeCurrency := Some (pmOutcomeData_currency pmOutData) \<rparr>)))))))))"

subsection \<open>ProcessNotifyPayment (lines 854-892) and processNotifyPaymentAmounts (lines 894-948)\<close>





subsection \<open>GetRevenueDynamic (lines 1063-1126) and getRevenueDynamicPointsKey (lines 1128-1150)\<close>

text \<open>The answer of the repository is a list of documents; the code reads four facets of the
  first one. A bucket has an identifier, read at the five period keys (a key may be missing), and
  a total. The type assertions of the code on the values that are there are taken to hold.\<close>

record pointId =
  RevenueDynamicRequestPeriodYear :: "int option"
  RevenueDynamicRequestPeriodMonth :: "int option"
  RevenueDynamicRequestPeriodWeek :: "int option"
  RevenueDynamicRequestPeriodDay :: "int option"
  RevenueDynamicRequestPeriodHour :: "int option"

record bucket =
  RevenueDynamicFacetFieldId :: pointId
  bucket_Total :: real

record summary =
  RevenueDynamicFacetFieldCount :: int
  RevenueDynamicFacetFieldTotal :: real
  RevenueDynamicFacetFieldAvg :: real

record facets =
  RevenueDynamicFacetFieldPointsRefund :: "bucket list"
  RevenueDynamicFacetFieldPointsRevenue :: "bucket list"
  RevenueDynamicFacetFieldRevenue :: "summary list"
  RevenueDynamicFacetFieldRefund :: "summary list"

record RevenueDynamicPointDate =
  Year :: int
  Month :: int
  Week :: int
  Day :: int
  Hour :: int

record RevenueDynamicPoint =
  Date :: RevenueDynamicPointDate
  RevenueDynamicPoint_Amount :: real

record RevenueDynamicMainData =
  Count :: int
  Total :: real
  Avg :: real

record RevenueDynamicResult =
  Points :: "RevenueDynamicPoint list"
  Revenue :: RevenueDynamicMainData
  Refund :: RevenueDynamicMainData

definition orZero :: "int option \<Rightarrow> int" where
  "orZero v = (case v of Some n \<Rightarrow> n | None \<Rightarrow> 0)"

definition getRevenueDynamicPointsKey :: "pointId \<Rightarrow> (error, RevenueDynamicPointDate) result" where
  "getRevenueDynamicPointsKey pid =
     (case RevenueDynamicRequestPeriodYear pid of
        None \<Rightarrow> Panic NilTypeAssertion
      | Some y \<Rightarrow>
          Ok \<lparr> Year = y,
               Month = orZero (RevenueDynamicRequestPeriodMonth pid),
               Week = orZero (RevenueDynamicRequestPeriodWeek pid),
               Day = orZero (RevenueDynamicRequestPeriodDay pid),
               Hour = orZero (RevenueDynamicRequestPeriodHour pid) \<rparr>)"

text \<open>The loop of lines 1077-1084; \<open>str\<close> is the method \<^verbatim>\<open>String\<close> of the point date, declared
  in package model.\<close>

fun refundPoints ::
  "(real \<Rightarrow> real) \<Rightarrow> (RevenueDynamicPointDate \<Rightarrow> string) \<Rightarrow> (string \<Rightarrow> real option) \<Rightarrow> bucket list
     \<Rightarrow> (error, string \<Rightarrow> real option) result" where
  "refundPoints fmt str refPoints [] = Ok refPoints"
| "refundPoints fmt str refPoints (v # vs) =
     bindR (getRevenueDynamicPointsKey (RevenueDynamicFacetFieldId v)) (\<lambda>k.
       refundPoints fmt str (refPoints (str k \<mapsto> fmt (bucket_Total v))) vs)"

text \<open>The loop of lines 1086-1106.\<close>

fun revenuePoints ::
  "(real \<Rightarrow> real) \<Rightarrow> (RevenueDynamicPointDate \<Rightarrow> string) \<Rightarrow> (string \<Rightarrow> real option) \<Rightarrow> bucket list
     \<Rightarrow> (error, RevenueDynamicPoint list) result" where
  "revenuePoints fmt str refPoints [] = Ok []"
| "revenuePoints fmt str refPoints (v # vs) =
     bindR (getRevenueDynamicPointsKey (RevenueDynamicFacetFieldId v)) (\<lambda>revPointDate.
       let revPoint =
             \<lparr> Date = revPointDate,
               RevenueDynamicPoint_Amount =
                 (case refPoints (str revPointDate) of
                    Some refVal \<Rightarrow> fmt (bucket_Total v - refVal)
                  | None \<Rightarrow> fmt (bucket_Total v)) \<rparr>
       in bindR (revenuePoints fmt str refPoints vs) (\<lambda>rest. Ok (revPoint # rest)))"

definition mainData :: "(real \<Rightarrow> real) \<Rightarrow> summary \<Rightarrow> RevenueDynamicMainData" where
  "mainData fmt sm =
     \<lparr> Count = RevenueDynamicFacetFieldCount sm,
       Total = fmt (RevenueDynamicFacetFieldTotal sm),
       Avg = fmt (RevenueDynamicFacetFieldAvg sm) \<rparr>"

text \<open>\<open>answer\<close> is what the repository returned for the request.\<close>

definition GetRevenueDynamic ::
  "'db OrderManager \<Rightarrow> (RevenueDynamicPointDate \<Rightarrow> string) \<Rightarrow> (error, facets list) result
     \<Rightarrow> (error, RevenueDynamicResult) result" where
  "GetRevenueDynamic om str answer =
     bindR answer (\<lambda>res.
     bindR (index0 res) (\<lambda>res0.
     bindR (refundPoints (FormatAmount om) str Map.empty (RevenueDynamicFacetFieldPointsRefund res0)) (\<lambda>refPoints.
     bindR (revenuePoints (FormatAmount om) str refPoints (RevenueDynamicFacetFieldPointsRevenue res0)) (\<lambda>revPoints.
     bindR (index0 (RevenueDynamicFacetFieldRevenue res0)) (\<lambda>rev.
     bindR (index0 (RevenueDynamicFacetFieldRefund res0)) (\<lambda>ref.
       Ok \<lparr> Points = revPoints,
            Revenue = mainData (FormatAmount om) rev,
            Refund = mainData (FormatAmount om) ref \<rparr>))))))"


subsection \<open>A concrete manager for the examples\<close>

text \<open>Modelled from the spec: \<^verbatim>\<open>FormatAmount\<close> is declared in a file of package manager that is
  not among the sources at hand; section 4.1 of the specification calls it a rounding to a fixed
  decimal precision and its example writes 500.00. The examples round to two decimals.\<close>

definition formatAmount2 :: "real \<Rightarrow> real" where
  "formatAmount2 x = real_of_int (round (x * 100)) / 100"

definition usd :: Currency where
  "usd = \<lparr> CodeInt = 840, CodeA3 = ''USD'', Currency_Name = ''US Dollar'' \<rparr>"

definition eur :: Currency where
  "eur = \<lparr> CodeInt = 978, CodeA3 = ''EUR'', Currency_Name = ''Euro'' \<rparr>"

text \<open>One euro is two dollars in the examples; no other rate is known.\<close>

definition exampleConvert :: "int \<Rightarrow> int \<Rightarrow> real \<Rightarrow> real \<times> error option" where
  "exampleConvert src dst amount =
     (if src = dst then (amount, None)
      else if src = 978 \<and> dst = 840 then (amount * 2, None)
      else if src = 840 \<and> dst = 978 then (amount / 2, None)
      else (0, Some (ExternalError ''rate not found'')))"

text \<open>One per cent for the PSP, one per cent for the payment method, \<open>toUser\<close> per cent for the payer.\<close>

definition exampleCommission :: "real \<Rightarrow> string \<Rightarrow> string \<Rightarrow> real \<Rightarrow> CommissionOrder option \<times> error option" where
  "exampleCommission toUser projectId pmId amount =
     (Some \<lparr> PspCommission = formatAmount2 (amount * (1 / 100)),
             PMCommission = formatAmount2 (amount * (1 / 100)),
             ToUserCommission = formatAmount2 (amount * (toUser / 100)) \<rparr>, None)"

definition exampleVat :: "string \<Rightarrow> string \<Rightarrow> real \<Rightarrow> real \<times> error option" where
  "exampleVat country subdivision amount = (formatAmount2 (amount * (10 / 100)), None)"

definition exampleMerchant :: Merchant where
  "exampleMerchant = \<lparr> Merchant_Currency = usd, IsCommissionToUserEnabled = False, IsVatEnabled = False \<rparr>"

definition payerPaysMerchant :: Merchant where
  "payerPaysMerchant = \<lparr> Merchant_Currency = usd, IsCommissionToUserEnabled = True, IsVatEnabled = True \<rparr>"

definition examplePaymentSystem :: PaymentSystem where
  "examplePaymentSystem = \<lparr> PaymentSystem_IsActive = True, AccountingCurrency = usd \<rparr>"

definition examplePaymentMethod :: PaymentMethod where
  "examplePaymentMethod =
     \<lparr> PaymentMethod_Id = ''5be2d0b4b0b30d0007383ce6'',
       PaymentMethod_Name = ''Bank card'',
       PaymentMethod_Params = [],
       PaymentMethod_PaymentSystem = Some examplePaymentSystem,
       PaymentMethod_GroupAlias = ''bank_card'',
       PaymentMethod_IsActive = True,
       PaymentMethod_Currency = usd,
       PaymentMethod_MinPaymentAmount = 1,
       PaymentMethod_MaxPaymentAmount = 10000 \<rparr>"

definition examplePackages :: "FixedPackage list" where
  "examplePackages =
     [\<lparr> FixedPackage_Name = ''first'', FixedPackage_CurrencyInt = 840, FixedPackage_Price = 500,
        FixedPackage_Currency = usd \<rparr>,
      \<lparr> FixedPackage_Name = ''other'', FixedPackage_CurrencyInt = 978, FixedPackage_Price = 500,
        FixedPackage_Currency = eur \<rparr>,
      \<lparr> FixedPackage_Name = ''second'', FixedPackage_CurrencyInt = 840, FixedPackage_Price = 500,
        FixedPackage_Currency = usd \<rparr>]"

definition exampleModes :: "ProjectPaymentModes list" where
  "exampleModes =
     [\<lparr> ProjectPaymentModes_Id = ''000000000000000000000001'', AddedAt = 10 \<rparr>,
      \<lparr> ProjectPaymentModes_Id = ''5be2d0b4b0b30d0007383ce6'', AddedAt = 30 \<rparr>,
      \<lparr> ProjectPaymentModes_Id = ''000000000000000000000002'', AddedAt = 20 \<rparr>]"

text \<open>The project of the example of the specification: limits 10 and 1000 in dollars, any amount.\<close>

definition exampleProject :: Project where
  "exampleProject =
     \<lparr> Project_Id = ''5be2c3022b9bb6000765d132'',
       Project_Name = ''Example'',
       Project_Merchant = exampleMerchant,
       IsActive = True,
       OnlyFixedAmounts = False,
       LimitsCurrency = usd,
       MinPaymentAmount = 10,
       MaxPaymentAmount = 1000,
       PaymentMethods = [''bank_card'' \<mapsto> exampleModes],
       Project_FixedPackage = [''US'' \<mapsto> examplePackages],
       SecretKey = ''secret'',
       IsAllowDynamicNotifyUrls = False,
       IsAllowDynamicRedirectUrls = False,
       CallbackCurrency = usd \<rparr>"

text \<open>The same project selling fixed packages only, and one whose merchant passes the
  commission and the VAT on to the payer.\<close>

definition fixedProject :: Project where
  "fixedProject = exampleProject \<lparr> Project_Id := ''5be2c3022b9bb6000765d133'', OnlyFixedAmounts := True \<rparr>"

definition payerPaysProject :: Project where
  "payerPaysProject =
     exampleProject \<lparr> Project_Id := ''5be2c3022b9bb6000765d134'', OnlyFixedAmounts := True,
                      Project_Merchant := payerPaysMerchant \<rparr>"

definition exampleCity :: City where
  "exampleCity =
     \<lparr> Country_IsoCode = ''US'',
       Country_Names = [''en'' \<mapsto> ''United States''],
       City_Names = [''en'' \<mapsto> ''Mountain View''],
       Subdivisions_IsoCode = [''CA''],
       Location_TimeZone = ''America/Los_Angeles'' \<rparr>"

text \<open>A stand-in for SHA-256 in the examples.\<close>

definition exampleHash :: "string \<Rightarrow> string" where
  "exampleHash s = rev s"

definition exampleHandler :: PaymentHandler where
  "exampleHandler ord opn =
     (ord \<lparr> PaymentMethodIncomeCurrencyA3 := ''USD'', PaymentMethodIncomeAmount := 500 \<rparr>,
      if map_of (Request opn) ''status'' = Some ''ok'' then None
      else Some (ExternalError ''payment declined''))"

text \<open>The database of the examples is the list of the orders.\<close>

definition exampleManager :: "real \<Rightarrow> Order list OrderManager" where
  "exampleManager toUser =
     \<lparr> FindProjectById =
         [''5be2c3022b9bb6000765d132'' \<mapsto> exampleProject,
          ''5be2c3022b9bb6000765d133'' \<mapsto> fixedProject,
          ''5be2c3022b9bb6000765d134'' \<mapsto> payerPaysProject],
       FindByCodeA3 = [''USD'' \<mapsto> usd, ''EUR'' \<mapsto> eur],
       paymentMethodManager_FindById = [''5be2d0b4b0b30d0007383ce6'' \<mapsto> examplePaymentMethod],
       convert = exampleConvert,
       CalculateCommission = exampleCommission toUser,
       CalculateVat = exampleVat,
       geoDbReader_City = [''8.8.8.8'' \<mapsto> exampleCity],
       FormatAmount = formatAmount2,
       sha256 = exampleHash,
       pspAccountingCurrency = Some eur,
       GetPaymentHandler = (\<lambda>ord psSettings. Ok exampleHandler),
       FindOrderByProjectOrderId = (\<lambda>db ident. find (\<lambda>x. ProjectOrderId x = Some ident) db),
       FindOrderById = (\<lambda>db ident. find (\<lambda>x. Order_Id x = ident) db),
       InsertOrder = (\<lambda>ord db. (None, db @ [ord])),
       UpdateOrder = (\<lambda>ord db. (None, map (\<lambda>x. if Order_Id x = Order_Id ord then ord else x) db)) \<rparr>"

text \<open>The requests of the examples of the specification: 500 and 5 dollars, no payment method.\<close>

definition exampleOrder :: OrderScalar where
  "exampleOrder =
     zeroOrderScalar \<lparr> Amount := 500, OrderScalar_Currency := Some ''USD'', CreateOrderIp := ''8.8.8.8'',
                       ProjectId := ''5be2c3022b9bb6000765d132'' \<rparr>"

definition smallOrder :: OrderScalar where
  "smallOrder = exampleOrder \<lparr> Amount := 5 \<rparr>"

definition smallEuroOrder :: OrderScalar where
  "smallEuroOrder = exampleOrder \<lparr> Amount := 4, OrderScalar_Currency := Some ''EUR'' \<rparr>"

definition fixedOrder :: OrderScalar where
  "fixedOrder = exampleOrder \<lparr> ProjectId := ''5be2c3022b9bb6000765d133'' \<rparr>"

definition cardOrder :: OrderScalar where
  "cardOrder =
     exampleOrder \<lparr> ProjectId := ''5be2c3022b9bb6000765d134'',
                    OrderScalar_PaymentMethod := Some ''bank_card'' \<rparr>"


text \<open>The check structure of the example, a GeoIP record without subdivisions, and the check
  structure of a request for four euros.\<close>

definition exampleCheck :: check where
  "exampleCheck = \<lparr> check_order = exampleOrder, check_project = exampleProject,
                    oCurrency = Some usd, paymentMethod = None \<rparr>"

definition noSubdivisions :: City where
  "noSubdivisions = exampleCity \<lparr> Subdivisions_IsoCode := [] \<rparr>"

definition smallEuroCheck :: check where
  "smallEuroCheck =
     \<lparr> check_order = zeroOrderScalar \<lparr> Amount := 4, OrderScalar_Currency := Some ''EUR'',
                                       CreateOrderIp := ''8.8.8.8'' \<rparr>,
       check_project = exampleProject, oCurrency = Some eur, paymentMethod = None \<rparr>"

text \<open>The signature as the specification words it (section 4.1, step 3): the keys of the raw
  parameters in lexicographic order, each with its value as \<^verbatim>\<open>key=value\<close>, joined with a bar,
  then a bar and the secret key of the project. The parameters are a map here: no order of
  iteration is part of the input.\<close>

definition spec_join :: "string list \<Rightarrow> string \<Rightarrow> string" where
  "spec_join xs sep = (case xs of [] \<Rightarrow> [] | x # rest \<Rightarrow> x @ concat (map (\<lambda>y. sep @ y) rest))"

definition spec_signatureText :: "(string \<Rightarrow> string option) \<Rightarrow> string \<Rightarrow> string" where
  "spec_signatureText params secret =
     spec_join (map (\<lambda>k. k @ ''='' @ the (params k)) (sorted_list_of_set (dom params))) ''|''
       @ ''|'' @ secret"

text \<open>A signed request, the same request with its parameters visited in the other order, and a
  request whose amount was changed after signing.\<close>

definition signedCheck :: check where
  "signedCheck =
     exampleCheck \<lparr> check_order := exampleOrder
       \<lparr> RawRequestParams := [(''currency'', ''USD''), (''amount'', ''500'')],
         Signature := Some (exampleHash ''amount=500|currency=USD|secret'') \<rparr> \<rparr>"

definition signedCheck' :: check where
  "signedCheck' =
     exampleCheck \<lparr> check_order := exampleOrder
       \<lparr> RawRequestParams := [(''amount'', ''500''), (''currency'', ''USD'')],
         Signature := Some (exampleHash ''amount=500|currency=USD|secret'') \<rparr> \<rparr>"

definition tamperedCheck :: check where
  "tamperedCheck =
     exampleCheck \<lparr> check_order := exampleOrder
       \<lparr> RawRequestParams := [(''currency'', ''USD''), (''amount'', ''900'')],
         Signature := Some (exampleHash ''amount=500|currency=USD|secret'') \<rparr> \<rparr>"

text \<open>A package matches a request when its price is the amount and the code of its currency is
  the currency of the request; the packages are numbered from 0 (\<open>enumerate\<close>).\<close>

definition packageMatches :: "real \<Rightarrow> string \<Rightarrow> nat \<times> FixedPackage \<Rightarrow> bool" where
  "packageMatches amount code ifp =
     (FixedPackage_Price (snd ifp) = amount \<and> CodeA3 (FixedPackage_Currency (snd ifp)) = code)"

text \<open>The check structures of a request on the project with fixed packages, of a request that
  names the bank card, and of a request that names a payment method the project does not have.\<close>

definition fixedCheck :: check where
  "fixedCheck = \<lparr> check_order = fixedOrder, check_project = fixedProject,
                  oCurrency = Some usd, paymentMethod = None \<rparr>"

definition cardCheck :: check where
  "cardCheck = \<lparr> check_order = cardOrder, check_project = payerPaysProject,
                 oCurrency = Some usd, paymentMethod = None \<rparr>"

definition unknownMethodCheck :: check where
  "unknownMethodCheck =
     cardCheck \<lparr> check_order := cardOrder \<lparr> OrderScalar_PaymentMethod := Some ''wallet'' \<rparr> \<rparr>"

text \<open>The key of a bucket: the period fields of its identifier that are there (a field that is
  not there reads 0) in the string form of the point date.\<close>

definition pointDate :: "pointId \<Rightarrow> RevenueDynamicPointDate" where
  "pointDate pid =
     \<lparr> Year = orZero (RevenueDynamicRequestPeriodYear pid),
       Month = orZero (RevenueDynamicRequestPeriodMonth pid),
       Week = orZero (RevenueDynamicRequestPeriodWeek pid),
       Day = orZero (RevenueDynamicRequestPeriodDay pid),
       Hour = orZero (RevenueDynamicRequestPeriodHour pid) \<rparr>"

definition bucketKey :: "(RevenueDynamicPointDate \<Rightarrow> string) \<Rightarrow> bucket \<Rightarrow> string" where
  "bucketKey str b = str (pointDate (RevenueDynamicFacetFieldId b))"

text \<open>The amount of a point as the claim words it: the revenue total of the bucket minus the
  refund total of the refund bucket with the same key when there is one, the revenue total alone
  otherwise.\<close>

definition spec_netAmount :: "(RevenueDynamicPointDate \<Rightarrow> string) \<Rightarrow> bucket list \<Rightarrow> bucket \<Rightarrow> real" where
  "spec_netAmount str refunds b =
     (case filter (\<lambda>r. bucketKey str r = bucketKey str b) refunds of
        [] \<Rightarrow> bucket_Total b
      | m # ms \<Rightarrow> bucket_Total b - bucket_Total (last (m # ms)))"

text \<open>The amount of a point as lines 1083 and 1100-1102 compute it: the refund total is formatted
  when it is stored, and the difference, or the revenue total alone, is formatted again; of
  several refund buckets with the key the last one counts.\<close>

definition formattedNetAmount :: "(real \<Rightarrow> real) \<Rightarrow> (RevenueDynamicPointDate \<Rightarrow> string) \<Rightarrow> bucket list \<Rightarrow> bucket \<Rightarrow> real" where
  "formattedNetAmount fmt str refunds b =
     (case filter (\<lambda>r. bucketKey str r = bucketKey str b) refunds of
        [] \<Rightarrow> fmt (bucket_Total b)
      | m # ms \<Rightarrow> fmt (bucket_Total b - fmt (bucket_Total (last (m # ms)))))"

text \<open>A string form of the point date for the examples, and the buckets of the example of the
  specification: a revenue of 100 with a refund of 30 in the same month, a revenue of 100 alone.\<close>

definition fourDigits :: "int \<Rightarrow> string" where
  "fourDigits n =
     [''0123456789'' ! (nat n div 1000 mod 10), ''0123456789'' ! (nat n div 100 mod 10),
      ''0123456789'' ! (nat n div 10 mod 10), ''0123456789'' ! (nat n mod 10)]"

definition exampleDateString :: "RevenueDynamicPointDate \<Rightarrow> string" where
  "exampleDateString d =
     fourDigits (Year d) @ ''-'' @ fourDigits (Month d) @ ''-'' @ fourDigits (Week d)
       @ ''-'' @ fourDigits (Day d) @ ''-'' @ fourDigits (Hour d)"

definition monthBucket :: "int \<Rightarrow> int \<Rightarrow> real \<Rightarrow> bucket" where
  "monthBucket y m amount =
     \<lparr> RevenueDynamicFacetFieldId =
         \<lparr> RevenueDynamicRequestPeriodYear = Some y, RevenueDynamicRequestPeriodMonth = Some m,
           RevenueDynamicRequestPeriodWeek = None, RevenueDynamicRequestPeriodDay = None,
           RevenueDynamicRequestPeriodHour = None \<rparr>,
       bucket_Total = amount \<rparr>"

definition exampleFacets :: facets where
  "exampleFacets =
     \<lparr> RevenueDynamicFacetFieldPointsRefund = [monthBucket 2019 1 30],
       RevenueDynamicFacetFieldPointsRevenue = [monthBucket 2019 1 100, monthBucket 2019 2 100],
       RevenueDynamicFacetFieldRevenue =
         [\<lparr> RevenueDynamicFacetFieldCount = 2, RevenueDynamicFacetFieldTotal = 200,
            RevenueDynamicFacetFieldAvg = 100 \<rparr>],
       RevenueDynamicFacetFieldRefund =
         [\<lparr> RevenueDynamicFacetFieldCount = 1, RevenueDynamicFacetFieldTotal = 30,
            RevenueDynamicFacetFieldAvg = 30 \<rparr>] \<rparr>"




text \<open>The fixed package as the claim words it (section 4.1, step 5 of the specification): the
  region is the region of the request when there is one and the country code that GeoIP gives for
  the address otherwise; the region must have a list of packages; a package must match the amount
  and the currency of the request; of several matches the last one is kept, with its index.\<close>

definition spec_getOrderFixedPackage ::
  "string option \<Rightarrow> string option \<Rightarrow> (string \<Rightarrow> FixedPackage list option) \<Rightarrow> real \<Rightarrow> string
     \<Rightarrow> (error, OrderFixedPackage) result" where
  "spec_getOrderFixedPackage requestRegion geoCountry packages amount code =
     (case (case requestRegion of Some r \<Rightarrow> Some r | None \<Rightarrow> geoCountry) of
        None \<Rightarrow> Err orderErrorPayerRegionUnknown
      | Some region \<Rightarrow>
          (case packages region of
             None \<Rightarrow> Err orderErrorFixedPackageForRegionNotFound
           | Some fps \<Rightarrow>
               if fps = [] then Err orderErrorFixedPackageForRegionNotFound
               else (case filter (packageMatches amount code) (enumerate 0 fps) of
                       [] \<Rightarrow> Err orderErrorFixedPackageNotFound
                     | m # ms \<Rightarrow>
                         Ok \<lparr> OrderFixedPackage_Id = fst (last (m # ms)),
                              OrderFixedPackage_Region = region,
                              OrderFixedPackage_Name = FixedPackage_Name (snd (last (m # ms))),
                              OrderFixedPackage_CurrencyInt = FixedPackage_CurrencyInt (snd (last (m # ms))),
                              OrderFixedPackage_Price = FixedPackage_Price (snd (last (m # ms))) \<rparr>)))"

text \<open>A request that names the region US, from an address that the GeoIP database of the
  examples does not know.\<close>

definition explicitRegionCheck :: check where
  "explicitRegionCheck =
     fixedCheck \<lparr> check_order := fixedOrder \<lparr> Region := Some ''US'', CreateOrderIp := ''10.0.0.1'' \<rparr> \<rparr>"

text \<open>Buckets whose totals have three decimals, an answer without refunds, and an answer with a
  revenue bucket that has no year.\<close>

definition roundingFacets :: facets where
  "roundingFacets =
     exampleFacets \<lparr> RevenueDynamicFacetFieldPointsRefund := [monthBucket 2019 1 (30006 / 1000)],
                     RevenueDynamicFacetFieldPointsRevenue := [monthBucket 2019 1 (100004 / 1000)] \<rparr>"

definition noRefundFacets :: facets where
  "noRefundFacets =
     exampleFacets \<lparr> RevenueDynamicFacetFieldPointsRefund := [],
                     RevenueDynamicFacetFieldRefund := [] \<rparr>"

definition noYearFacets :: facets where
  "noYearFacets =
     exampleFacets \<lparr> RevenueDynamicFacetFieldPointsRevenue :=
       [\<lparr> RevenueDynamicFacetFieldId =
            \<lparr> RevenueDynamicRequestPeriodYear = None, RevenueDynamicRequestPeriodMonth = Some 1,
              RevenueDynamicRequestPeriodWeek = None, RevenueDynamicRequestPeriodDay = None,
              RevenueDynamicRequestPeriodHour = None \<rparr>,
          bucket_Total = 100 \<rparr>] \<rparr>"

section \<open>Properties\<close>

lemmas example_defs =
  exampleManager_def exampleOrder_def smallOrder_def fixedOrder_def cardOrder_def smallEuroOrder_def
  exampleProject_def fixedProject_def payerPaysProject_def exampleCity_def exampleHash_def
  examplePaymentMethod_def examplePaymentSystem_def exampleMerchant_def payerPaysMerchant_def
  exampleConvert_def exampleCommission_def exampleVat_def usd_def eur_def examplePackages_def
  exampleModes_def zeroOrderScalar_def formatAmount2_def

lemmas Process_defs =
  Process_def Process_build_def Process_resolve_def Process_fixedPackage_def
  checkProjectLimits_def projectLimitsAmount_def Process_paymentMethodAmounts_def
  Process_requestChecks_def Process_assemble_def Process_payerData_def Process_paymentMethod_def
  Process_commissions_def checkPaymentMethod_def getPaymentMethod_def checkPaymentMethodLimits_def
  getOrderFixedPackage_def checkProjectOrderIdUnique_def convertChecked_def bindR_def index0_def
  namesAt_def orderPaymentMethod_def checkSignature_def

subsection \<open>The date ranges of ProcessFilters\<close>

text \<open>
  C9. The claim: the date range of the payment method and the date range of the project are two
  independent filters. The code writes both under the key \<^verbatim>\<open>pm_order_close_date\<close> (lines 781
  and 799). With both ranges in the request (100 to 200 for the payment method, 300 to 400 for
  the project) the filter that comes out has one entry, the range of the project under the key of
  the payment method: the range of the payment method is lost. With the range of the project alone
  the same entry comes out: the date of the payment method is constrained although no range was
  given for it.
\<close>

theorem ProcessFilters_date_ranges_share_key:
  "(ProcessFilters exampleFields bothRanges [] :: (error, bsonM) result) =
     Ok [(''pm_order_close_date'', BDoc [(''$gte'', BTime 300), (''$lte'', BTime 400)])]
   \<and> (ProcessFilters exampleFields projectRangeOnly [] :: (error, bsonM) result) =
     Ok [(''pm_order_close_date'', BDoc [(''$gte'', BTime 300), (''$lte'', BTime 400)])]"
  by code_simp

subsection \<open>The example of the specification\<close>

text \<open>
  C1. The claim: a request for 500 dollars on an active project with the limits 10 and 1000, with
  no payment method, no signature, no order identifier and no dynamic address, on a project that
  does not sell fixed packages only, yields a stored order with the status New. The code returns
  nothing: \<^verbatim>\<open>gRecord\<close> is still \<^verbatim>\<open>nil\<close> when line 261 reads its country, the call panics and
  the database is as it was.
\<close>

theorem Process_example_panics:
  "Process (exampleManager 0) now ident db exampleOrder = (Panic NilDereference, db)"
  by (simp add: example_defs Process_defs)


subsection \<open>The GeoIP record in Process\<close>

lemma bindR_Ok_iff: "bindR m f = Ok y \<longleftrightarrow> (\<exists>x. m = Ok x \<and> f x = Ok y)"
  by (cases m) (simp_all add: bindR_def)

lemma Process_payerData_Ok:
  "Process_payerData order gRecord = Ok pd \<Longrightarrow> \<exists>g. gRecord = Some g \<and> Subdivisions_IsoCode g \<noteq> []"
  by (auto simp: Process_payerData_def bindR_Ok_iff index0_def split: option.splits list.splits)

lemma Process_assemble_Ok:
  "Process_assemble om now ident order p oCur gRecord ofp vat = Ok n
     \<Longrightarrow> \<exists>g. gRecord = Some g \<and> Subdivisions_IsoCode g \<noteq> []"
  by (auto simp: Process_assemble_def Let_def bindR_Ok_iff split: option.splits dest: Process_payerData_Ok)

lemma Process_fixedPackage_Some:
  "Process_fixedPackage om c = Ok (Some g, ofp)
     \<Longrightarrow> OnlyFixedAmounts (check_project c) \<and> geoDbReader_City om (CreateOrderIp (check_order c)) = Some g"
  by (auto simp: Process_fixedPackage_def getOrderFixedPackage_def Let_def bindR_Ok_iff
      split: if_splits option.splits prod.splits)

lemma Process_resolve_Ok:
  "Process_resolve om order = Ok c
     \<Longrightarrow> FindProjectById om (ProjectId order) = Some (check_project c) \<and> IsActive (check_project c)
         \<and> CreateOrderIp (check_order c) = CreateOrderIp order
         \<and> Amount (check_order c) = Amount order"
  by (auto simp: Process_resolve_def Let_def bindR_Ok_iff zeroOrderScalar_def
      split: if_splits option.splits)

lemma Process_build_Ok:
  assumes "Process_build om now ident db order = Ok nOrder"
  shows "\<exists>p g. FindProjectById om (ProjectId order) = Some p \<and> OnlyFixedAmounts p
           \<and> geoDbReader_City om (CreateOrderIp order) = Some g \<and> Subdivisions_IsoCode g \<noteq> []"
proof -
  from assms obtain c gRecord ofp vatAmount n where
    r: "Process_resolve om order = Ok c" and
    f: "Process_fixedPackage om c = Ok (gRecord, ofp)" and
    a: "Process_assemble om now ident order (check_project c) (oCurrency c) gRecord ofp vatAmount = Ok n"
    by (auto simp: Process_build_def bindR_Ok_iff split: prod.splits)
  from Process_assemble_Ok[OF a] obtain g where g: "gRecord = Some g" "Subdivisions_IsoCode g \<noteq> []"
    by blast
  from f g have "OnlyFixedAmounts (check_project c)"
    "geoDbReader_City om (CreateOrderIp (check_order c)) = Some g"
    using Process_fixedPackage_Some by blast+
  with Process_resolve_Ok[OF r] g show ?thesis by auto
qed

lemma Process_Ok_build:
  "Process om now ident db order = (Ok nOrder, db') \<Longrightarrow> Process_build om now ident db order = Ok nOrder"
  by (auto simp: Process_def split: result.splits prod.splits option.splits)

lemma vat_branch_Panic:
  assumes "gRecord = None \<or> (\<exists>g. gRecord = Some g \<and> Subdivisions_IsoCode g = [])"
    and "OrderScalar_PaymentMethod order \<noteq> None"
    and "IsVatEnabled (Project_Merchant (check_project c))"
  shows "Process_paymentMethodAmounts om order c gRecord \<noteq> Ok r"
proof (cases "checkPaymentMethodLimits om c")
  case (Ok pmOut)
  show ?thesis
  proof (cases "paymentMethod c")
    case None
    with Ok assms show ?thesis by (simp add: Process_paymentMethodAmounts_def bindR_def)
  next
    case (Some pm)
    obtain cm e where cc: "CalculateCommission om (Project_Id (check_project c)) (PaymentMethod_Id pm)
                      (pmOutcomeData_amount pmOut) = (cm, e)"
      by (cases "CalculateCommission om (Project_Id (check_project c)) (PaymentMethod_Id pm)
                      (pmOutcomeData_amount pmOut)")
    show ?thesis
    proof (cases e)
      case (Some a)
      with Ok \<open>paymentMethod c = Some pm\<close> cc assms show ?thesis
        by (simp add: Process_paymentMethodAmounts_def bindR_def)
    next
      case None
      with Ok \<open>paymentMethod c = Some pm\<close> cc assms show ?thesis
        by (auto simp: Process_paymentMethodAmounts_def bindR_def index0_def split: option.splits)
    qed
  qed
next
  case (Err e)
  with assms show ?thesis by (simp add: Process_paymentMethodAmounts_def bindR_def)
next
  case (Panic pn)
  with assms show ?thesis by (simp add: Process_paymentMethodAmounts_def bindR_def)
qed

lemma vat_branch_Ok:
  "Process_paymentMethodAmounts om order c gRecord = Ok r \<Longrightarrow> OrderScalar_PaymentMethod order \<noteq> None
    \<Longrightarrow> IsVatEnabled (Project_Merchant (check_project c))
    \<Longrightarrow> \<exists>g. gRecord = Some g \<and> Subdivisions_IsoCode g \<noteq> []"
  using vat_branch_Panic[of gRecord order c om r] by (cases gRecord) auto

text \<open>
  C10. The GeoIP record is fetched only for a project that sells fixed amounts only, and the data
  of the payer read its country, city, location and first subdivision without a test; the VAT
  branch reads the first subdivision as well. So \<^verbatim>\<open>Process\<close> returns an order only if the
  project sells fixed amounts only and the record of the address has a subdivision; for another
  project the record is \<^verbatim>\<open>nil\<close> and reading it panics, and for a record without subdivisions
  the index is out of range.
\<close>

theorem Process_reads_geo_record_unconditionally:
  "(Process om now ident db order = (Ok nOrder, db') \<longrightarrow>
      (\<exists>p g. FindProjectById om (ProjectId order) = Some p \<and> OnlyFixedAmounts p
          \<and> geoDbReader_City om (CreateOrderIp order) = Some g \<and> Subdivisions_IsoCode g \<noteq> []))
   \<and> (\<not> OnlyFixedAmounts (check_project c) \<longrightarrow> Process_fixedPackage om c = Ok (None, None))
   \<and> Process_payerData order None = Panic NilDereference
   \<and> (Subdivisions_IsoCode g = [] \<longrightarrow> Process_payerData order (Some g) = Panic IndexOutOfRange)
   \<and> (Process_paymentMethodAmounts om order c gRecord = Ok r \<and> OrderScalar_PaymentMethod order \<noteq> None
        \<and> IsVatEnabled (Project_Merchant (check_project c))
      \<longrightarrow> (\<exists>g'. gRecord = Some g' \<and> Subdivisions_IsoCode g' \<noteq> []))"
proof (intro conjI impI)
  assume "Process om now ident db order = (Ok nOrder, db')"
  then show "\<exists>p g. FindProjectById om (ProjectId order) = Some p \<and> OnlyFixedAmounts p
          \<and> geoDbReader_City om (CreateOrderIp order) = Some g \<and> Subdivisions_IsoCode g \<noteq> []"
    by (rule Process_build_Ok[OF Process_Ok_build])
next
  assume "\<not> OnlyFixedAmounts (check_project c)"
  then show "Process_fixedPackage om c = Ok (None, None)"
    by (simp add: Process_fixedPackage_def)
next
  show "Process_payerData order None = Panic NilDereference"
    by (simp add: Process_payerData_def)
next
  assume "Subdivisions_IsoCode g = []"
  then show "Process_payerData order (Some g) = Panic IndexOutOfRange"
    by (simp add: Process_payerData_def index0_def bindR_def)
next
  assume "Process_paymentMethodAmounts om order c gRecord = Ok r \<and> OrderScalar_PaymentMethod order \<noteq> None
        \<and> IsVatEnabled (Project_Merchant (check_project c))"
  then show "\<exists>g'. gRecord = Some g' \<and> Subdivisions_IsoCode g' \<noteq> []"
    using vat_branch_Ok by blast
qed

theorem Process_reads_geo_record_unconditionally_witness:
  "(\<exists>nOrder. Process (exampleManager 0) 0 ''5be2c3022b9bb6000765d135'' [] fixedOrder = (Ok nOrder, [nOrder])
       \<and> Status nOrder = OrderStatusNew
       \<and> (\<exists>p g. FindProjectById (exampleManager 0) (ProjectId fixedOrder) = Some p \<and> OnlyFixedAmounts p
          \<and> geoDbReader_City (exampleManager 0) (CreateOrderIp fixedOrder) = Some g \<and> Subdivisions_IsoCode g \<noteq> []))
   \<and> \<not> OnlyFixedAmounts (check_project exampleCheck)
   \<and> Process_fixedPackage (exampleManager 0) exampleCheck = Ok (None, None)
   \<and> Subdivisions_IsoCode noSubdivisions = []
   \<and> Process_payerData exampleOrder (Some noSubdivisions) = Panic IndexOutOfRange"
  using Process_reads_geo_record_unconditionally
    [of "exampleManager 0" 0 "''5be2c3022b9bb6000765d135''" "[]" fixedOrder _ _ exampleCheck noSubdivisions]
  by (simp add: example_defs Process_defs Let_def noSubdivisions_def exampleCheck_def)

subsection \<open>The limits of the project\<close>

text \<open>
  C5. Once the project, the currency, the signature, the payment method and the fixed package of
  a request have been resolved, an amount that is below the minimum of the project, after the
  conversion into the currency of the limits when the currency of the order is another one
  (\<open>projectLimitsAmount\<close>), makes \<^verbatim>\<open>Process\<close> return the error of the amount lower than
  the minimum, whatever the currency of the order, and the database is as it was: nothing is
  inserted.
\<close>

theorem Process_rejects_amount_below_minimum:
  assumes "Process_resolve om order = Ok c"
      and "Process_fixedPackage om c = Ok gp"
      and "projectLimitsAmount om c = Ok cAmount"
      and "cAmount < MinPaymentAmount (check_project c)"
  shows "Process om now ident db order = (Err orderErrorAmountLowerThanMinAllowed, db)"
  using assms
  by (simp add: Process_def Process_build_def checkProjectLimits_def bindR_def split: prod.splits)

theorem Process_rejects_amount_below_minimum_witness:
  "Process_resolve (exampleManager 0) smallEuroOrder = Ok smallEuroCheck
   \<and> Process_fixedPackage (exampleManager 0) smallEuroCheck = Ok (None, None)
   \<and> projectLimitsAmount (exampleManager 0) smallEuroCheck = Ok 8
   \<and> (8 :: real) < MinPaymentAmount (check_project smallEuroCheck)
   \<and> Process (exampleManager 0) 0 ''5be2c3022b9bb6000765d135'' [] smallEuroOrder
       = (Err orderErrorAmountLowerThanMinAllowed, [])"
proof -
  have 1: "Process_resolve (exampleManager 0) smallEuroOrder = Ok smallEuroCheck"
    by (simp add: example_defs Process_defs Let_def smallEuroCheck_def)
  have 2: "Process_fixedPackage (exampleManager 0) smallEuroCheck = Ok (None, None)"
    by (simp add: example_defs Process_defs Let_def smallEuroCheck_def)
  have 3: "projectLimitsAmount (exampleManager 0) smallEuroCheck = Ok 8"
    by (simp add: example_defs Process_defs Let_def smallEuroCheck_def)
  have 4: "(8 :: real) < MinPaymentAmount (check_project smallEuroCheck)"
    by (simp add: example_defs smallEuroCheck_def)
  from Process_rejects_amount_below_minimum[OF 1 2 3 4] 1 2 3 4 show ?thesis by simp
qed

subsection \<open>The signature of a request\<close>

lemma strings_Join_spec: "strings_Join xs sep = spec_join xs sep"
  by (induction xs sep rule: strings_Join.induct) (simp_all add: spec_join_def)

lemma sort_keys_spec:
  assumes "distinct (map fst ps)"
  shows "sort (map fst ps) = sorted_list_of_set (dom (map_of ps))"
proof -
  have "sorted_list_of_set (dom (map_of ps)) = sorted_list_of_set (set (map fst ps))"
    by (simp add: dom_map_of_conv_image_fst)
  also have "\<dots> = sort (remdups (map fst ps))"
    by (rule sorted_list_of_set_sort_remdups)
  also have "\<dots> = sort (map fst ps)"
    using assms by (simp add: distinct_remdups_id)
  finally show ?thesis by simp
qed

lemma mapIndex_spec: "k \<in> dom (map_of ps) \<Longrightarrow> mapIndex ps k = the (map_of ps k)"
  by (auto simp: mapIndex_def)

lemma signatureText_spec:
  assumes "distinct (map fst ps)"
  shows "signatureText ps secret = spec_signatureText (map_of ps) secret"
proof -
  have eq: "map (\<lambda>k. k @ ''='' @ mapIndex ps k) (sorted_list_of_set (dom (map_of ps)))
      = map (\<lambda>k. k @ ''='' @ the (map_of ps k)) (sorted_list_of_set (dom (map_of ps)))"
    by (rule map_cong) (simp_all add: mapIndex_spec finite_dom_map_of)
  show ?thesis
    by (simp only: signatureText_def spec_signatureText_def strings_Join_spec sort_keys_spec[OF assms]
        orderSignatureElementsGlue_def Let_def eq)
qed

text \<open>
  C3. For a request that carries a signature, \<^verbatim>\<open>checkSignature\<close> hashes the text that the
  specification describes: the keys of the raw parameters sorted lexicographically, joined as
  \<^verbatim>\<open>key=value\<close> with a bar, followed by a bar and the secret key of the project. It compares
  the hash with the signature of the request and fails with the error of the invalid signature
  exactly when they differ. The result depends on the map of the parameters only, not on the order
  in which the map is visited: two runs on the same parameters and secret agree.
\<close>

theorem checkSignature_recomputes_signature:
  assumes "distinct (map fst (RawRequestParams (check_order c)))"
      and "Signature (check_order c) = Some sig"
  shows "checkSignature om c =
           (if sha256 om (spec_signatureText (map_of (RawRequestParams (check_order c)))
                           (SecretKey (check_project c))) = sig
            then Ok () else Err orderErrorSignatureInvalid)
         \<and> (\<forall>c'. distinct (map fst (RawRequestParams (check_order c')))
                 \<and> map_of (RawRequestParams (check_order c')) = map_of (RawRequestParams (check_order c))
                 \<and> SecretKey (check_project c') = SecretKey (check_project c)
                 \<and> Signature (check_order c') = Some sig
               \<longrightarrow> checkSignature om c' = checkSignature om c)"
  using assms by (auto simp: checkSignature_def Let_def signatureText_spec)

theorem checkSignature_recomputes_signature_witness:
  "distinct (map fst (RawRequestParams (check_order signedCheck)))
   \<and> Signature (check_order signedCheck) = Some (exampleHash ''amount=500|currency=USD|secret'')
   \<and> signatureText (RawRequestParams (check_order signedCheck)) ''secret'' = ''amount=500|currency=USD|secret''
   \<and> checkSignature (exampleManager 0) signedCheck = Ok ()
   \<and> checkSignature (exampleManager 0) signedCheck' = checkSignature (exampleManager 0) signedCheck
   \<and> checkSignature (exampleManager 0) tamperedCheck = Err orderErrorSignatureInvalid"
proof -
  have d: "distinct (map fst (RawRequestParams (check_order signedCheck)))"
    by (simp add: signedCheck_def)
  have s: "Signature (check_order signedCheck) = Some (exampleHash ''amount=500|currency=USD|secret'')"
    by (simp add: signedCheck_def)
  have t: "signatureText (RawRequestParams (check_order signedCheck)) ''secret'' = ''amount=500|currency=USD|secret''"
    by code_simp
  have k: "SecretKey (check_project signedCheck) = ''secret''"
    by (simp add: signedCheck_def exampleCheck_def exampleProject_def)
  have m: "map_of (RawRequestParams (check_order signedCheck')) = map_of (RawRequestParams (check_order signedCheck))"
    by (auto simp: signedCheck'_def signedCheck_def)
  have u: "checkSignature (exampleManager 0) tamperedCheck = Err orderErrorSignatureInvalid"
    by code_simp
  note th = checkSignature_recomputes_signature[OF d s, of "exampleManager 0"]
  from th have "checkSignature (exampleManager 0) signedCheck = Ok ()"
    using signatureText_spec[OF d, of "''secret''"] t k
    by (simp add: exampleManager_def)
  moreover from th m have "checkSignature (exampleManager 0) signedCheck' = checkSignature (exampleManager 0) signedCheck"
    by (simp add: signedCheck'_def signedCheck_def exampleCheck_def)
  ultimately show ?thesis using d s t u by simp
qed

subsection \<open>The fixed package of a request\<close>

lemma scanFixedPackages_spec:
  "scanFixedPackages amount (Some code) i found fps =
     Ok (case filter (packageMatches amount code) (enumerate i fps) of
           [] \<Rightarrow> found
         | m # ms \<Rightarrow> Some (snd (last (m # ms)), fst (last (m # ms))))"
proof (induction fps arbitrary: i found)
  case Nil
  then show ?case by simp
next
  case (Cons fp fps)
  show ?case
  proof (cases "packageMatches amount code (i, fp)")
    case True
    then show ?thesis
      using Cons.IH[of "Suc i" "Some (fp, i)"]
      by (auto simp: packageMatches_def split: list.splits)
  next
    case False
    then show ?thesis
      using Cons.IH[of "Suc i" found]
      by (auto simp: packageMatches_def split: list.splits)
  qed
qed

text \<open>
  C4, as amended. The claim: the region of the request, when there is one, decides, for every
  request. What holds for every request that carries a currency: \<^verbatim>\<open>getOrderFixedPackage\<close>
  first asks the GeoIP database for the address of the request and fails with the error of the
  unknown region when the address is not found, also when the request names a region; otherwise
  it takes the region of the request when there is one (a region that is the empty string counts
  as none) and the country code of the GeoIP record otherwise; without a list of packages for the
  region, or with an empty one, it fails with the error of the region; a package matches when its
  price is the amount and the code of its currency is the currency of the request; without a
  match it fails with the error of the package; with several matches it returns the last one of
  the list, under its index.
\<close>

theorem getOrderFixedPackage_last_match:
  assumes "OrderScalar_Currency (check_order c) = Some code"
  shows "getOrderFixedPackage om c =
     (case geoDbReader_City om (CreateOrderIp (check_order c)) of
        None \<Rightarrow> Err orderErrorPayerRegionUnknown
      | Some g \<Rightarrow>
          (let region = (case Region (check_order c) of
                           None \<Rightarrow> Country_IsoCode g
                         | Some r \<Rightarrow> if r = [] then Country_IsoCode g else r)
           in case Project_FixedPackage (check_project c) region of
                None \<Rightarrow> Err orderErrorFixedPackageForRegionNotFound
              | Some fps \<Rightarrow>
                  if fps = [] then Err orderErrorFixedPackageForRegionNotFound
                  else (case filter (packageMatches (Amount (check_order c)) code) (enumerate 0 fps) of
                          [] \<Rightarrow> Err orderErrorFixedPackageNotFound
                        | m # ms \<Rightarrow>
                            Ok (g, \<lparr> OrderFixedPackage_Id = fst (last (m # ms)),
                                     OrderFixedPackage_Region = region,
                                     OrderFixedPackage_Name = FixedPackage_Name (snd (last (m # ms))),
                                     OrderFixedPackage_CurrencyInt = FixedPackage_CurrencyInt (snd (last (m # ms))),
                                     OrderFixedPackage_Price = FixedPackage_Price (snd (last (m # ms))) \<rparr>))))"
  using assms
  by (auto simp: getOrderFixedPackage_def Let_def scanFixedPackages_spec bindR_def
      split: option.splits list.splits)

theorem getOrderFixedPackage_last_match_witness:
  "OrderScalar_Currency (check_order fixedCheck) = Some ''USD''
   \<and> getOrderFixedPackage (exampleManager 0) fixedCheck =
       Ok (exampleCity, \<lparr> OrderFixedPackage_Id = 2, OrderFixedPackage_Region = ''US'',
                          OrderFixedPackage_Name = ''second'', OrderFixedPackage_CurrencyInt = 840,
                          OrderFixedPackage_Price = 500 \<rparr>)
   \<and> OrderScalar_Currency (check_order explicitRegionCheck) = Some ''USD''
   \<and> getOrderFixedPackage (exampleManager 0) explicitRegionCheck = Err orderErrorPayerRegionUnknown"
proof -
  have 1: "OrderScalar_Currency (check_order fixedCheck) = Some ''USD''"
    by (simp add: example_defs fixedCheck_def)
  have 2: "OrderScalar_Currency (check_order explicitRegionCheck) = Some ''USD''"
    by (simp add: example_defs fixedCheck_def explicitRegionCheck_def)
  from getOrderFixedPackage_last_match[OF 2, of "exampleManager 0"]
  have 3: "getOrderFixedPackage (exampleManager 0) explicitRegionCheck = Err orderErrorPayerRegionUnknown"
    by (simp add: example_defs fixedCheck_def explicitRegionCheck_def)
  from getOrderFixedPackage_last_match[OF 1, of "exampleManager 0"] 1 2 3 show ?thesis
    by (simp add: example_defs fixedCheck_def packageMatches_def enumerate_eq_zip Let_def)
qed

text \<open>
  The claim as it stands fails on a request that names the region US, for which the project has
  a list with a package of 500 dollars, from an address that the GeoIP database does not know:
  by the words of the claim the package of index 2 is found; the code returns the error of the
  unknown region (lines 530-535 come before the region is looked at).
\<close>

theorem getOrderFixedPackage_explicit_region_counterexample:
  "spec_getOrderFixedPackage (Region (check_order explicitRegionCheck)) None
       (Project_FixedPackage (check_project explicitRegionCheck))
       (Amount (check_order explicitRegionCheck)) ''USD''
     = Ok \<lparr> OrderFixedPackage_Id = 2, OrderFixedPackage_Region = ''US'',
            OrderFixedPackage_Name = ''second'', OrderFixedPackage_CurrencyInt = 840,
            OrderFixedPackage_Price = 500 \<rparr>
   \<and> getOrderFixedPackage (exampleManager 0) explicitRegionCheck = Err orderErrorPayerRegionUnknown"
  by (simp add: example_defs fixedCheck_def explicitRegionCheck_def spec_getOrderFixedPackage_def
      getOrderFixedPackage_def packageMatches_def enumerate_eq_zip Let_def)

subsection \<open>The payment method of a request\<close>

lemma latestAdded_None: "latestAdded opm cpms = None \<longleftrightarrow> opm = None \<and> cpms = []"
  by (induction cpms arbitrary: opm) (auto split: option.splits)

lemma latestAdded_latest:
  "latestAdded opm cpms = Some m \<Longrightarrow>
     (m \<in> set cpms \<or> opm = Some m) \<and> (\<forall>x \<in> set cpms. AddedAt x \<le> AddedAt m)
       \<and> (\<forall>cur. opm = Some cur \<longrightarrow> AddedAt cur \<le> AddedAt m)"
proof (induction cpms arbitrary: opm)
  case Nil
  then show ?case by simp
next
  case (Cons ppm cpms)
  then show ?case
    by (cases opm) (fastforce split: if_splits)+
qed

text \<open>
  C6. For a request that names a payment method: without a list of configurations under that
  name in the project, or with an empty one, the error is that the payment method is not allowed;
  otherwise the configuration chosen is one of the list whose \<^verbatim>\<open>AddedAt\<close> is the latest, and
  the result is decided by the payment method with the identifier of that configuration: not
  found, inactive, its payment system not found, its payment system inactive, or the payment
  method itself.
\<close>

theorem checkPaymentMethod_latest_configuration:
  assumes "OrderScalar_PaymentMethod (check_order c) = Some name"
  shows "(PaymentMethods (check_project c) name = None \<or> PaymentMethods (check_project c) name = Some []
            \<longrightarrow> checkPaymentMethod om c = Err orderErrorPaymentMethodNotAllowed)
       \<and> (\<forall>cpms. PaymentMethods (check_project c) name = Some cpms \<and> cpms \<noteq> [] \<longrightarrow>
            (\<exists>m. m \<in> set cpms \<and> (\<forall>x \<in> set cpms. AddedAt x \<le> AddedAt m)
               \<and> getPaymentMethod (check_order c) (PaymentMethods (check_project c)) = Ok (Some m)
               \<and> checkPaymentMethod om c =
                   (case paymentMethodManager_FindById om (ProjectPaymentModes_Id m) of
                      None \<Rightarrow> Err orderErrorPaymentMethodNotFound
                    | Some pm \<Rightarrow>
                        if \<not> PaymentMethod_IsActive pm then Err orderErrorPaymentMethodInactive
                        else (case PaymentMethod_PaymentSystem pm of
                                None \<Rightarrow> Err orderErrorPaymentSystemNotFound
                              | Some ps \<Rightarrow>
                                  if \<not> PaymentSystem_IsActive ps then Err orderErrorPaymentSystemInactive
                                  else Ok pm))))"
proof (intro conjI allI impI)
  assume "PaymentMethods (check_project c) name = None \<or> PaymentMethods (check_project c) name = Some []"
  with assms show "checkPaymentMethod om c = Err orderErrorPaymentMethodNotAllowed"
    by (auto simp: checkPaymentMethod_def getPaymentMethod_def bindR_def)
next
  fix cpms
  assume a: "PaymentMethods (check_project c) name = Some cpms \<and> cpms \<noteq> []"
  then obtain m where m: "latestAdded None cpms = Some m"
    using latestAdded_None[of None cpms] by (cases "latestAdded None cpms") auto
  from latestAdded_latest[OF m] have l: "m \<in> set cpms" "\<forall>x \<in> set cpms. AddedAt x \<le> AddedAt m"
    by auto
  from a m assms have g: "getPaymentMethod (check_order c) (PaymentMethods (check_project c)) = Ok (Some m)"
    by (simp add: getPaymentMethod_def)
  then have "checkPaymentMethod om c =
                   (case paymentMethodManager_FindById om (ProjectPaymentModes_Id m) of
                      None \<Rightarrow> Err orderErrorPaymentMethodNotFound
                    | Some pm \<Rightarrow>
                        if \<not> PaymentMethod_IsActive pm then Err orderErrorPaymentMethodInactive
                        else (case PaymentMethod_PaymentSystem pm of
                                None \<Rightarrow> Err orderErrorPaymentSystemNotFound
                              | Some ps \<Rightarrow>
                                  if \<not> PaymentSystem_IsActive ps then Err orderErrorPaymentSystemInactive
                                  else Ok pm))"
    by (simp add: checkPaymentMethod_def bindR_def split: option.splits)
  with l g show "\<exists>m. m \<in> set cpms \<and> (\<forall>x \<in> set cpms. AddedAt x \<le> AddedAt m)
               \<and> getPaymentMethod (check_order c) (PaymentMethods (check_project c)) = Ok (Some m)
               \<and> checkPaymentMethod om c =
                   (case paymentMethodManager_FindById om (ProjectPaymentModes_Id m) of
                      None \<Rightarrow> Err orderErrorPaymentMethodNotFound
                    | Some pm \<Rightarrow>
                        if \<not> PaymentMethod_IsActive pm then Err orderErrorPaymentMethodInactive
                        else (case PaymentMethod_PaymentSystem pm of
                                None \<Rightarrow> Err orderErrorPaymentSystemNotFound
                              | Some ps \<Rightarrow>
                                  if \<not> PaymentSystem_IsActive ps then Err orderErrorPaymentSystemInactive
                                  else Ok pm))"
    by blast
qed

theorem checkPaymentMethod_latest_configuration_witness:
  "OrderScalar_PaymentMethod (check_order cardCheck) = Some ''bank_card''
   \<and> PaymentMethods (check_project cardCheck) ''bank_card'' = Some exampleModes \<and> exampleModes \<noteq> []
   \<and> getPaymentMethod (check_order cardCheck) (PaymentMethods (check_project cardCheck))
       = Ok (Some \<lparr> ProjectPaymentModes_Id = ''5be2d0b4b0b30d0007383ce6'', AddedAt = 30 \<rparr>)
   \<and> checkPaymentMethod (exampleManager 0) cardCheck = Ok examplePaymentMethod
   \<and> OrderScalar_PaymentMethod (check_order unknownMethodCheck) = Some ''wallet''
   \<and> PaymentMethods (check_project unknownMethodCheck) ''wallet'' = None
   \<and> checkPaymentMethod (exampleManager 0) unknownMethodCheck = Err orderErrorPaymentMethodNotAllowed"
proof -
  have 1: "OrderScalar_PaymentMethod (check_order cardCheck) = Some ''bank_card''"
    by (simp add: example_defs cardCheck_def)
  have 2: "OrderScalar_PaymentMethod (check_order unknownMethodCheck) = Some ''wallet''"
    by (simp add: example_defs cardCheck_def unknownMethodCheck_def)
  have 3: "PaymentMethods (check_project unknownMethodCheck) ''wallet'' = None"
    by (simp add: example_defs cardCheck_def unknownMethodCheck_def)
  from checkPaymentMethod_latest_configuration[OF 2, of "exampleManager 0"] 3
  have 4: "checkPaymentMethod (exampleManager 0) unknownMethodCheck = Err orderErrorPaymentMethodNotAllowed"
    by simp
  from checkPaymentMethod_latest_configuration[OF 1, of "exampleManager 0"] 1 2 3 4 show ?thesis
    by (simp add: example_defs cardCheck_def checkPaymentMethod_def getPaymentMethod_def bindR_def)
qed

subsection \<open>The revenue dynamics\<close>

lemma getRevenueDynamicPointsKey_year:
  "RevenueDynamicRequestPeriodYear pid \<noteq> None \<Longrightarrow> getRevenueDynamicPointsKey pid = Ok (pointDate pid)"
  by (auto simp: getRevenueDynamicPointsKey_def pointDate_def orZero_def)

lemma refundPoints_last:
  assumes "\<forall>b \<in> set bs. RevenueDynamicRequestPeriodYear (RevenueDynamicFacetFieldId b) \<noteq> None"
  shows "refundPoints fmt str m bs =
           Ok (\<lambda>k. case filter (\<lambda>r. bucketKey str r = k) bs of
                      [] \<Rightarrow> m k
                    | x # xs \<Rightarrow> Some (fmt (bucket_Total (last (x # xs)))))"
  using assms
proof (induction bs arbitrary: m)
  case Nil
  then show ?case by simp
next
  case (Cons b bs)
  have k: "getRevenueDynamicPointsKey (RevenueDynamicFacetFieldId b) = Ok (pointDate (RevenueDynamicFacetFieldId b))"
    using Cons.prems by (simp add: getRevenueDynamicPointsKey_year)
  have ih: "refundPoints fmt str (m(bucketKey str b \<mapsto> fmt (bucket_Total b))) bs =
           Ok (\<lambda>k. case filter (\<lambda>r. bucketKey str r = k) bs of
                      [] \<Rightarrow> (m(bucketKey str b \<mapsto> fmt (bucket_Total b))) k
                    | x # xs \<Rightarrow> Some (fmt (bucket_Total (last (x # xs)))))"
    using Cons.IH Cons.prems by simp
  have "(\<lambda>k. case filter (\<lambda>r. bucketKey str r = k) bs of
                      [] \<Rightarrow> (m(bucketKey str b \<mapsto> fmt (bucket_Total b))) k
                    | x # xs \<Rightarrow> Some (fmt (bucket_Total (last (x # xs)))))
      = (\<lambda>k. case filter (\<lambda>r. bucketKey str r = k) (b # bs) of
                      [] \<Rightarrow> m k
                    | x # xs \<Rightarrow> Some (fmt (bucket_Total (last (x # xs)))))"
    by (rule ext) (auto split: list.splits)
  with ih k show ?case
    by (simp add: bindR_def bucketKey_def)
qed

lemma revenuePoints_map:
  assumes "\<forall>b \<in> set bs. RevenueDynamicRequestPeriodYear (RevenueDynamicFacetFieldId b) \<noteq> None"
  shows "revenuePoints fmt str refPoints bs =
           Ok (map (\<lambda>b. \<lparr> Date = pointDate (RevenueDynamicFacetFieldId b),
                          RevenueDynamicPoint_Amount =
                            (case refPoints (bucketKey str b) of
                               Some refVal \<Rightarrow> fmt (bucket_Total b - refVal)
                             | None \<Rightarrow> fmt (bucket_Total b)) \<rparr>) bs)"
  using assms
  by (induction bs) (simp_all add: bindR_def getRevenueDynamicPointsKey_year bucketKey_def)

text \<open>
  C7, as amended. The claim: the amount of a point is the revenue total of the bucket minus the
  refund total of the matching refund bucket, for every pre-aggregated result. What holds: for
  an answer of the repository that has a first document, with a year in the identifier of every
  bucket and with a revenue and a refund summary, \<^verbatim>\<open>GetRevenueDynamic\<close> returns one point for
  each revenue bucket, in their order; the amount of a point is the formatted difference of the
  total of the bucket and the formatted total of the refund bucket with the same key when there
  is one (the last one of several), and the formatted total alone otherwise, where the key is the
  string form of the period fields of the bucket; the revenue and the refund summaries carry the
  count and the formatted total and average.
\<close>

theorem GetRevenueDynamic_net_points:
  assumes "answer = Ok (res0 # others)"
      and "\<forall>b \<in> set (RevenueDynamicFacetFieldPointsRefund res0) \<union> set (RevenueDynamicFacetFieldPointsRevenue res0).
             RevenueDynamicRequestPeriodYear (RevenueDynamicFacetFieldId b) \<noteq> None"
      and "RevenueDynamicFacetFieldRevenue res0 = revenue # revenues"
      and "RevenueDynamicFacetFieldRefund res0 = refund # refunds"
  shows "GetRevenueDynamic om str answer =
     Ok \<lparr> Points = map (\<lambda>b. \<lparr> Date = pointDate (RevenueDynamicFacetFieldId b),
                               RevenueDynamicPoint_Amount =
                                 formattedNetAmount (FormatAmount om) str (RevenueDynamicFacetFieldPointsRefund res0) b \<rparr>)
                      (RevenueDynamicFacetFieldPointsRevenue res0),
          Revenue = \<lparr> Count = RevenueDynamicFacetFieldCount revenue,
                      Total = FormatAmount om (RevenueDynamicFacetFieldTotal revenue),
                      Avg = FormatAmount om (RevenueDynamicFacetFieldAvg revenue) \<rparr>,
          Refund = \<lparr> Count = RevenueDynamicFacetFieldCount refund,
                     Total = FormatAmount om (RevenueDynamicFacetFieldTotal refund),
                     Avg = FormatAmount om (RevenueDynamicFacetFieldAvg refund) \<rparr> \<rparr>"
proof -
  have r: "refundPoints (FormatAmount om) str Map.empty (RevenueDynamicFacetFieldPointsRefund res0) =
           Ok (\<lambda>k. case filter (\<lambda>r. bucketKey str r = k) (RevenueDynamicFacetFieldPointsRefund res0) of
                      [] \<Rightarrow> None
                    | x # xs \<Rightarrow> Some (FormatAmount om (bucket_Total (last (x # xs)))))"
    using assms(2) by (simp add: refundPoints_last)
  have p: "\<forall>b \<in> set (RevenueDynamicFacetFieldPointsRevenue res0).
             RevenueDynamicRequestPeriodYear (RevenueDynamicFacetFieldId b) \<noteq> None"
    using assms(2) by simp
  have m: "(case (case filter (\<lambda>r. bucketKey str r = bucketKey str b) rs of
                    [] \<Rightarrow> None
                  | x # xs \<Rightarrow> Some (f (bucket_Total (last (x # xs))))) of
              Some refVal \<Rightarrow> f (bucket_Total b - refVal)
            | None \<Rightarrow> f (bucket_Total b)) = formattedNetAmount f str rs b" for b rs f
    by (simp add: formattedNetAmount_def split: list.splits)
  show ?thesis
    using assms(1,3,4)
    by (simp add: GetRevenueDynamic_def bindR_def index0_def r revenuePoints_map[OF p] m mainData_def)
qed

theorem GetRevenueDynamic_net_points_witness:
  "GetRevenueDynamic (exampleManager 0) exampleDateString (Ok [exampleFacets]) =
       Ok \<lparr> Points = [\<lparr> Date = \<lparr> Year = 2019, Month = 1, Week = 0, Day = 0, Hour = 0 \<rparr>,
                        RevenueDynamicPoint_Amount = 70 \<rparr>,
                      \<lparr> Date = \<lparr> Year = 2019, Month = 2, Week = 0, Day = 0, Hour = 0 \<rparr>,
                        RevenueDynamicPoint_Amount = 100 \<rparr>],
            Revenue = \<lparr> Count = 2, Total = 200, Avg = 100 \<rparr>,
            Refund = \<lparr> Count = 1, Total = 30, Avg = 30 \<rparr> \<rparr>"
proof -
  have 2: "\<forall>b \<in> set (RevenueDynamicFacetFieldPointsRefund exampleFacets) \<union> set (RevenueDynamicFacetFieldPointsRevenue exampleFacets).
             RevenueDynamicRequestPeriodYear (RevenueDynamicFacetFieldId b) \<noteq> None"
    by (simp add: exampleFacets_def monthBucket_def)
  have 3: "RevenueDynamicFacetFieldRevenue exampleFacets =
         \<lparr> RevenueDynamicFacetFieldCount = 2, RevenueDynamicFacetFieldTotal = 200,
            RevenueDynamicFacetFieldAvg = 100 \<rparr> # []"
    by (simp add: exampleFacets_def)
  have 4: "RevenueDynamicFacetFieldRefund exampleFacets =
         \<lparr> RevenueDynamicFacetFieldCount = 1, RevenueDynamicFacetFieldTotal = 30,
            RevenueDynamicFacetFieldAvg = 30 \<rparr> # []"
    by (simp add: exampleFacets_def)
  from GetRevenueDynamic_net_points[OF refl 2 3 4, where others = "[]" and om = "exampleManager 0" and str = exampleDateString]
  show ?thesis
    by (simp add: exampleFacets_def formattedNetAmount_def bucketKey_def exampleDateString_def pointDate_def
        monthBucket_def orZero_def exampleManager_def formatAmount2_def fourDigits_def)
qed

text \<open>
  The claim as it stands fails on a revenue of 100.004 with a refund of 30.006 in the same month:
  the refund is stored as 30.01 and the point is 69.99, where the revenue minus the refund is
  69.998, which rounds to 70. It fails as well on an answer without a refund summary (the index
  at line 1109 is out of range) and on a bucket without a year (the type assertion at line 1130
  is on a value that is not there): the code panics where the claim promises points.
\<close>

lemma round_refund_example: "round (15003 / 5 :: real) = 3001"
  by (rule round_unique) simp_all

lemma round_point_example: "round (50002 / 5 - real_of_int (round (15003 / 5 :: real))) = 6999"
  unfolding round_refund_example by (rule round_unique) simp_all

lemma round_difference_example: "round (34999 / 5 :: real) = 7000"
  by (rule round_unique) simp_all

theorem GetRevenueDynamic_rounding_counterexample:
  "GetRevenueDynamic (exampleManager 0) exampleDateString (Ok [roundingFacets]) =
       Ok \<lparr> Points = [\<lparr> Date = \<lparr> Year = 2019, Month = 1, Week = 0, Day = 0, Hour = 0 \<rparr>,
                        RevenueDynamicPoint_Amount = 6999 / 100 \<rparr>],
            Revenue = \<lparr> Count = 2, Total = 200, Avg = 100 \<rparr>,
            Refund = \<lparr> Count = 1, Total = 30, Avg = 30 \<rparr> \<rparr>
   \<and> spec_netAmount exampleDateString (RevenueDynamicFacetFieldPointsRefund roundingFacets)
        (monthBucket 2019 1 (100004 / 1000)) = 69998 / 1000
   \<and> formatAmount2 (69998 / 1000) = 70
   \<and> GetRevenueDynamic (exampleManager 0) exampleDateString (Ok [noRefundFacets]) = Panic IndexOutOfRange
   \<and> GetRevenueDynamic (exampleManager 0) exampleDateString (Ok [noYearFacets]) = Panic NilTypeAssertion"
  by (simp add: GetRevenueDynamic_def roundingFacets_def noRefundFacets_def noYearFacets_def
      exampleFacets_def monthBucket_def getRevenueDynamicPointsKey_def orZero_def mainData_def
      spec_netAmount_def bucketKey_def pointDate_def exampleDateString_def fourDigits_def
      exampleManager_def formatAmount2_def bindR_def index0_def round_point_example
      round_difference_example)

subsection \<open>The notification of a payment\<close>








end
